theory Spec2Isabelle
  imports Complex_Main "HOL-Library.Product_Lexorder" "HOL-Library.Sublist"
    "HOL-Library.Char_ord" "HOL-Library.List_Lexorder"
begin

section \<open>Python values used by app.py\<close>

text \<open>
  The application is one Python file, \<^verbatim>\<open>src/app.py\<close>: Flask request handlers over an
  SQLite database. Exceptions are values: a handler that raises returns \<open>Inl\<close> of the
  exception, and nothing it wrote is committed.
\<close>

datatype py_error = ValueError | KeyError | OverflowError

subsection \<open>Strings\<close>

text \<open>
  A \<open>char\<close> stands for a code point below 256. \<open>py_isspace\<close> lists the code points
  below 256 that \<^verbatim>\<open>str.strip()\<close> removes, \<open>py_lower_char\<close> is \<^verbatim>\<open>str.lower()\<close> on
  one of them (the ASCII capitals and the Latin-1 capitals, apart from the
  multiplication sign).
\<close>

definition py_isspace :: "char \<Rightarrow> bool" where
  "py_isspace c = (of_char c \<in> {9, 10, 11, 12, 13, 28, 29, 30, 31, 32, 133, 160 :: nat})"

definition py_strip :: "string \<Rightarrow> string" where
  "py_strip s = rev (dropWhile py_isspace (rev (dropWhile py_isspace s)))"

definition py_lower_char :: "char \<Rightarrow> char" where
  "py_lower_char c = (let n = of_char c :: nat in
     if (65 \<le> n \<and> n \<le> 90) \<or> (192 \<le> n \<and> n \<le> 222 \<and> n \<noteq> 215)
     then char_of (n + 32) else c)"

definition py_lower :: "string \<Rightarrow> string" where
  "py_lower s = map py_lower_char s"

text \<open>\<^verbatim>\<open>needle in haystack\<close> on strings: the needle occurs as a contiguous run.\<close>

fun str_in :: "string \<Rightarrow> string \<Rightarrow> bool" where
  "str_in needle [] = (needle = [])"
| "str_in needle (c # cs) = (prefix needle (c # cs) \<or> str_in needle cs)"

subsection \<open>Dates\<close>

text \<open>
  A \<^verbatim>\<open>datetime.date\<close> is its year, month and day; dates compare as these triples do
  (the order on triples is the lexicographic one). The constructor raises
  \<^verbatim>\<open>ValueError\<close> outside 0001-01-01 .. 9999-12-31, and adding a day to 9999-12-31
  raises \<^verbatim>\<open>OverflowError\<close>.
\<close>

type_synonym date = "int \<times> int \<times> int"

definition is_leap :: "int \<Rightarrow> bool" where
  "is_leap y = (y mod 4 = 0 \<and> (y mod 100 \<noteq> 0 \<or> y mod 400 = 0))"

definition days_in_month :: "int \<Rightarrow> int \<Rightarrow> int" where
  "days_in_month y m =
     (if m = 2 \<and> is_leap y then 29
      else if m = 2 then 28
      else if m \<in> {4, 6, 9, 11} then 30
      else 31)"

definition valid_date :: "date \<Rightarrow> bool" where
  "valid_date dt = (case dt of (y, m, d) \<Rightarrow>
     1 \<le> y \<and> y \<le> 9999 \<and> 1 \<le> m \<and> m \<le> 12 \<and> 1 \<le> d \<and> d \<le> days_in_month y m)"

definition mk_date :: "int \<Rightarrow> int \<Rightarrow> int \<Rightarrow> py_error + date" where
  "mk_date y m d = (if valid_date (y, m, d) then Inr (y, m, d) else Inl ValueError)"

definition date_max :: date where
  "date_max = (9999, 12, 31)"

text \<open>\<^verbatim>\<open>current + timedelta(days=1)\<close>.\<close>

definition add_day :: "date \<Rightarrow> py_error + date" where
  "add_day dt = (case dt of (y, m, d) \<Rightarrow>
     if d < days_in_month y m then Inr (y, m, d + 1)
     else if m < 12 then Inr (y, m + 1, 1)
     else if y < 9999 then Inr (y + 1, 1, 1)
     else Inl OverflowError)"

text \<open>\<^verbatim>\<open>date.toordinal()\<close>: the day count from 0001-01-01, which is day 1.\<close>

definition days_before_year :: "int \<Rightarrow> int" where
  "days_before_year y = (let p = y - 1 in p * 365 + p div 4 - p div 100 + p div 400)"

definition days_before_month :: "int \<Rightarrow> int \<Rightarrow> int" where
  "days_before_month y m =
     [0, 0, 31, 59, 90, 120, 151, 181, 212, 243, 273, 304, 334] ! nat m
       + (if m > 2 \<and> is_leap y then 1 else 0)"

definition toordinal :: "date \<Rightarrow> int" where
  "toordinal dt = (case dt of (y, m, d) \<Rightarrow> days_before_year y + days_before_month y m + d)"

text \<open>\<^verbatim>\<open>(b - a).days\<close>.\<close>

definition days_between :: "date \<Rightarrow> date \<Rightarrow> int" where
  "days_between a b = toordinal b - toordinal a"

text \<open>\<^verbatim>\<open>date.isoformat()\<close> is \<^verbatim>\<open>"%04d-%02d-%02d" % (year, month, day)\<close>; the
  numbers of a date are not negative.\<close>

function dec_str :: "int \<Rightarrow> string" where
  "dec_str n =
     (if n < 10 then [char_of (48 + n)] else dec_str (n div 10) @ [char_of (48 + n mod 10)])"
  by pat_completeness auto
termination
  by (relation "measure nat") auto

declare dec_str.simps [simp del]

definition zfill :: "nat \<Rightarrow> string \<Rightarrow> string" where
  "zfill w s = replicate (w - length s) CHR ''0'' @ s"

definition isoformat :: "date \<Rightarrow> string" where
  "isoformat dt = (case dt of (y, m, d) \<Rightarrow>
     zfill 4 (dec_str y) @ ''-'' @ zfill 2 (dec_str m) @ ''-'' @ zfill 2 (dec_str d))"

subsection \<open>\<^verbatim>\<open>parse_date\<close>\<close>

text \<open>
  \<^verbatim>\<open>parse_date(value)\<close> is \<^verbatim>\<open>datetime.strptime(value, "%Y-%m-%d").date()\<close>.
  The standard library turns the format into the regular expression
  \<^verbatim>\<open>(?P<Y>\d\d\d\d)-(?P<m>1[0-2]|0[1-9]|[1-9])-(?P<d>3[0-1]|[1-2]\d|0[1-9]|[1-9]| [1-9])\<close>,
  matches it at the start of the text, raises \<^verbatim>\<open>ValueError\<close> when it does not match or
  when text remains after the match, converts the three groups with \<^verbatim>\<open>int\<close> and builds
  the date, which raises \<^verbatim>\<open>ValueError\<close> for a day that does not exist. Each \<open>re_\<close>
  function lists the ways its group can match a prefix, in the order of the
  alternatives; the first complete match is the one the library takes.
\<close>

definition is_digit :: "char \<Rightarrow> bool" where
  "is_digit c = (48 \<le> (of_char c :: int) \<and> (of_char c :: int) \<le> 57)"

definition digit_val :: "char \<Rightarrow> int" where
  "digit_val c = of_char c - 48"

definition in_range :: "char \<Rightarrow> char \<Rightarrow> char \<Rightarrow> bool" where
  "in_range lo hi c = ((of_char lo :: int) \<le> of_char c \<and> (of_char c :: int) \<le> of_char hi)"

fun re_Y :: "string \<Rightarrow> (string \<times> string) list" where
  "re_Y (a # b # c # d # r) =
     (if is_digit a \<and> is_digit b \<and> is_digit c \<and> is_digit d then [([a, b, c, d], r)] else [])"
| "re_Y _ = []"

fun re_two :: "(char \<Rightarrow> bool) \<Rightarrow> (char \<Rightarrow> bool) \<Rightarrow> string \<Rightarrow> (string \<times> string) list" where
  "re_two p q (a # b # r) = (if p a \<and> q b then [([a, b], r)] else [])"
| "re_two p q _ = []"

fun re_one :: "(char \<Rightarrow> bool) \<Rightarrow> string \<Rightarrow> (string \<times> string) list" where
  "re_one p (a # r) = (if p a then [([a], r)] else [])"
| "re_one p _ = []"

definition re_m :: "string \<Rightarrow> (string \<times> string) list" where
  "re_m s = re_two (\<lambda>c. c = CHR ''1'') (in_range CHR ''0'' CHR ''2'') s
          @ re_two (\<lambda>c. c = CHR ''0'') (in_range CHR ''1'' CHR ''9'') s
          @ re_one (in_range CHR ''1'' CHR ''9'') s"

definition re_d :: "string \<Rightarrow> (string \<times> string) list" where
  "re_d s = re_two (\<lambda>c. c = CHR ''3'') (in_range CHR ''0'' CHR ''1'') s
          @ re_two (in_range CHR ''1'' CHR ''2'') is_digit s
          @ re_two (\<lambda>c. c = CHR ''0'') (in_range CHR ''1'' CHR ''9'') s
          @ re_one (in_range CHR ''1'' CHR ''9'') s
          @ re_two (\<lambda>c. c = CHR '' '') (in_range CHR ''1'' CHR ''9'') s"

fun re_lit :: "char \<Rightarrow> string \<Rightarrow> string list" where
  "re_lit x (a # r) = (if a = x then [r] else [])"
| "re_lit x [] = []"

definition strptime_match :: "string \<Rightarrow> (string \<times> string \<times> string \<times> string) option" where
  "strptime_match s =
     (case [(Y, m, d, r5). (Y, r1) \<leftarrow> re_Y s, r2 \<leftarrow> re_lit CHR ''-'' r1, (m, r3) \<leftarrow> re_m r2,
                           r4 \<leftarrow> re_lit CHR ''-'' r3, (d, r5) \<leftarrow> re_d r4] of
        [] \<Rightarrow> None
      | x # _ \<Rightarrow> Some x)"

text \<open>\<^verbatim>\<open>int(group)\<close>: surrounding space is dropped, the digits are read in base ten.\<close>

definition py_int :: "string \<Rightarrow> int" where
  "py_int s = foldl (\<lambda>acc c. 10 * acc + digit_val c) 0 (py_strip s)"

definition parse_date :: "string \<Rightarrow> py_error + date" where
  "parse_date v =
     (case strptime_match v of
        None \<Rightarrow> Inl ValueError
      | Some (Y, m, d, rest) \<Rightarrow>
          if rest \<noteq> [] then Inl ValueError
          else mk_date (py_int Y) (py_int m) (py_int d))"

section \<open>CSV rows\<close>

text \<open>
  \<^verbatim>\<open>csv.DictReader\<close> yields one dictionary per line, from column name to text; a
  column the file lacks is absent. \<open>row_get row k\<close> is \<^verbatim>\<open>(row.get(k) or "")\<close>.
  Both import handlers (\<^verbatim>\<open>import_trip_csv\<close>, \<^verbatim>\<open>import_trip_csv_into_trip\<close>) parse a
  row the same way; a row they skip with \<^verbatim>\<open>continue\<close> parses to \<open>None\<close>. The
  \<^verbatim>\<open>selected\<close> flag, 0 or 1 in the source, is the \<^verbatim>\<open>checked\<close> column of the item the row
  becomes; it is a \<open>bool\<close> here, \<open>False\<close> for 0.
\<close>

type_synonym csv_row = "string \<Rightarrow> string option"

definition row_get :: "csv_row \<Rightarrow> string \<Rightarrow> string" where
  "row_get row k = (case row k of None \<Rightarrow> [] | Some v \<Rightarrow> v)"

record parsed_row =
  pr_date :: date
  pr_name :: string
  pr_time_of_day :: string
  pr_category :: string
  pr_city :: string
  pr_meal :: string
  pr_selected :: bool

definition parse_selected :: "csv_row \<Rightarrow> bool" where
  "parse_selected row =
     (let selected_raw = py_lower (py_strip (row_get row ''selected''))
      in if selected_raw \<in> {''0'', ''false'', ''no'', ''n''} then False else True)"

definition parse_csv_row :: "csv_row \<Rightarrow> parsed_row option" where
  "parse_csv_row row =
     (let date_str = py_strip (row_get row ''date'');
          name = py_strip (row_get row ''name'')
      in if date_str = [] \<or> name = [] then None
         else case parse_date date_str of
           Inl e \<Rightarrow> None
         | Inr date \<Rightarrow>
             (let time_of_day = py_lower (py_strip (row_get row ''time_of_day''));
                  category = py_lower (py_strip (row_get row ''category''));
                  city = py_strip (row_get row ''city'');
                  meal = py_lower (py_strip (row_get row ''meal''));
                  selected = parse_selected row;
                  category = (if category \<notin> {''place'', ''restaurant'', ''hotel''}
                              then ''place'' else category)
              in Some \<lparr>pr_date = date, pr_name = name, pr_time_of_day = time_of_day,
                        pr_category = category, pr_city = city, pr_meal = meal,
                        pr_selected = selected\<rparr>))"

definition parse_rows :: "csv_row list \<Rightarrow> parsed_row list" where
  "parse_rows reader = List.map_filter parse_csv_row reader"

text \<open>
  \<^verbatim>\<open>csv.DictReader\<close> over the lines of a file, each line the list of its fields: the
  first line names the columns, an empty line is skipped, and of two columns of one
  name the later one counts. The quoting that \<^verbatim>\<open>csv.writer\<close> adds and the reader
  removes is not modelled: a file is the list of its lines of fields.
\<close>

definition dict_reader :: "string list list \<Rightarrow> csv_row list" where
  "dict_reader lines =
     (case lines of
        [] \<Rightarrow> []
      | fieldnames # rest \<Rightarrow>
          map (\<lambda>r. map_of (rev (zip fieldnames r))) (filter (\<lambda>r. r \<noteq> []) rest))"

text \<open>
  The slot an imported row gets (\<^verbatim>\<open>slot = None\<close>, then the two \<^verbatim>\<open>if\<close>s of both
  import handlers).
\<close>

definition row_slot :: "parsed_row \<Rightarrow> string option" where
  "row_slot row =
     (if pr_category row = ''place'' then
        (if pr_time_of_day row \<in> {''morning'', ''afternoon'', ''evening''}
         then Some (pr_time_of_day row) else None)
      else if pr_category row = ''restaurant'' then
        (if pr_meal row \<in> {''breakfast'', ''lunch'', ''dinner'', ''snack''}
         then Some (pr_meal row) else None)
      else None)"

section \<open>The database\<close>

text \<open>
  The six tables of \<^verbatim>\<open>ensure_database\<close>, one record per row with the columns of the
  \<^verbatim>\<open>CREATE TABLE\<close>, a table being the list of its rows in rowid order. A column that
  may be \<^verbatim>\<open>NULL\<close> is an \<open>option\<close>. The \<^verbatim>\<open>checked\<close> and \<^verbatim>\<open>hidden\<close> columns are
  \<^verbatim>\<open>INTEGER\<close> flags: the application writes 0 or 1 and reads them for truth, so they
  are \<open>bool\<close>. Every \<^verbatim>\<open>id\<close> is \<^verbatim>\<open>INTEGER PRIMARY KEY AUTOINCREMENT\<close>: a new row gets
  an id above every id the table ever held, which SQLite keeps in
  \<^verbatim>\<open>sqlite_sequence\<close>.
\<close>

record trip =
  trip_id :: nat
  destination :: string
  start_date :: string
  end_date :: string
  travel_style :: string

record itinerary_row =
  day_id :: nat
  day_trip_id :: nat
  day_number :: nat
  day_date :: string
  morning_title :: "string option"
  morning_description :: "string option"
  morning_map_link :: "string option"
  afternoon_title :: "string option"
  afternoon_description :: "string option"
  afternoon_map_link :: "string option"
  evening_title :: "string option"
  evening_description :: "string option"
  evening_map_link :: "string option"

record budget_item =
  budget_id :: nat
  budget_trip_id :: nat
  budget_label :: string
  estimated_cost :: rat
  actual_cost :: rat

record day_item =
  item_id :: nat
  itinerary_id :: nat
  category :: string
  item_name :: string
  checked :: bool
  slot :: "string option"
  hidden :: bool

record trip_stop =
  stop_id :: nat
  stop_trip_id :: nat
  stop_name :: string
  stop_start_date :: string
  stop_end_date :: string

record packing_item =
  packing_id :: nat
  packing_trip_id :: nat
  packing_category :: string
  packing_label :: string
  packing_checked :: bool

record database =
  trips :: "trip list"
  itinerary :: "itinerary_row list"
  budget_items :: "budget_item list"
  day_items :: "day_item list"
  trip_stops :: "trip_stop list"
  packing_items :: "packing_item list"
  sqlite_sequence :: "string \<Rightarrow> nat"

definition next_rowid :: "nat \<Rightarrow> nat list \<Rightarrow> nat" where
  "next_rowid seq ids = Suc (fold max ids seq)"

subsection \<open>Statements\<close>

text \<open>\<^verbatim>\<open>INSERT INTO trips (destination, start_date, end_date, travel_style)\<close>; the
  second component is \<^verbatim>\<open>cursor.lastrowid\<close>.\<close>

definition insert_trip :: "string \<Rightarrow> string \<Rightarrow> string \<Rightarrow> string \<Rightarrow> database \<Rightarrow> database \<times> nat" where
  "insert_trip dest s e style db =
     (let new_id = next_rowid (sqlite_sequence db ''trips'') (map trip_id (trips db))
      in (db\<lparr>trips := trips db @
               [\<lparr>trip_id = new_id, destination = dest, start_date = s, end_date = e,
                 travel_style = style\<rparr>],
             sqlite_sequence := (sqlite_sequence db)(''trips'' := new_id)\<rparr>, new_id))"

text \<open>\<^verbatim>\<open>INSERT INTO itinerary (trip_id, day_number, date)\<close>.\<close>

definition insert_itinerary :: "nat \<Rightarrow> nat \<Rightarrow> string \<Rightarrow> database \<Rightarrow> database" where
  "insert_itinerary tid dn date_str db =
     (let new_id = next_rowid (sqlite_sequence db ''itinerary'') (map day_id (itinerary db))
      in db\<lparr>itinerary := itinerary db @
               [\<lparr>day_id = new_id, day_trip_id = tid, day_number = dn, day_date = date_str,
                 morning_title = None, morning_description = None, morning_map_link = None,
                 afternoon_title = None, afternoon_description = None,
                 afternoon_map_link = None,
                 evening_title = None, evening_description = None, evening_map_link = None\<rparr>],
            sqlite_sequence := (sqlite_sequence db)(''itinerary'' := new_id)\<rparr>)"

text \<open>\<^verbatim>\<open>INSERT INTO day_items (itinerary_id, category, name, checked, slot)\<close>; \<^verbatim>\<open>hidden\<close>
  takes its default 0.\<close>

definition insert_day_item ::
  "nat \<Rightarrow> string \<Rightarrow> string \<Rightarrow> bool \<Rightarrow> string option \<Rightarrow> database \<Rightarrow> database" where
  "insert_day_item did cat nm chk sl db =
     (let new_id = next_rowid (sqlite_sequence db ''day_items'') (map item_id (day_items db))
      in db\<lparr>day_items := day_items db @
               [\<lparr>item_id = new_id, itinerary_id = did, category = cat, item_name = nm,
                 checked = chk, slot = sl, hidden = False\<rparr>],
            sqlite_sequence := (sqlite_sequence db)(''day_items'' := new_id)\<rparr>)"

text \<open>\<^verbatim>\<open>INSERT INTO trip_stops (trip_id, name, start_date, end_date)\<close>.\<close>

definition insert_trip_stop :: "nat \<Rightarrow> string \<Rightarrow> string \<Rightarrow> string \<Rightarrow> database \<Rightarrow> database" where
  "insert_trip_stop tid nm s e db =
     (let new_id = next_rowid (sqlite_sequence db ''trip_stops'') (map stop_id (trip_stops db))
      in db\<lparr>trip_stops := trip_stops db @
               [\<lparr>stop_id = new_id, stop_trip_id = tid, stop_name = nm, stop_start_date = s,
                 stop_end_date = e\<rparr>],
            sqlite_sequence := (sqlite_sequence db)(''trip_stops'' := new_id)\<rparr>)"

text \<open>\<^verbatim>\<open>SELECT * FROM trips WHERE id = ?\<close>, \<^verbatim>\<open>fetchone()\<close>.\<close>

definition select_trip :: "database \<Rightarrow> nat \<Rightarrow> trip option" where
  "select_trip db tid = find (\<lambda>t. trip_id t = tid) (trips db)"

text \<open>\<^verbatim>\<open>SELECT ... FROM itinerary WHERE trip_id = ?\<close>, in rowid order without an
  \<^verbatim>\<open>ORDER BY\<close>, and with \<^verbatim>\<open>ORDER BY day_number\<close>.\<close>

definition select_itinerary :: "database \<Rightarrow> nat \<Rightarrow> itinerary_row list" where
  "select_itinerary db tid = filter (\<lambda>d. day_trip_id d = tid) (itinerary db)"

definition select_days :: "database \<Rightarrow> nat \<Rightarrow> itinerary_row list" where
  "select_days db tid = sort_key day_number (select_itinerary db tid)"

text \<open>\<^verbatim>\<open>SELECT ... FROM trip_stops WHERE trip_id = ? ORDER BY start_date\<close>. The dates are
  text and compare as text; rows with the same start date keep their rowid order.\<close>

definition select_stops :: "database \<Rightarrow> nat \<Rightarrow> trip_stop list" where
  "select_stops db tid =
     sort_key stop_start_date (filter (\<lambda>s. stop_trip_id s = tid) (trip_stops db))"

text \<open>\<^verbatim>\<open>SELECT ... FROM day_items WHERE itinerary_id IN (...) AND (hidden IS NULL OR
  hidden = 0) ORDER BY id\<close>.\<close>

definition select_visible_items :: "database \<Rightarrow> nat list \<Rightarrow> day_item list" where
  "select_visible_items db day_ids =
     sort_key item_id
       (filter (\<lambda>i. itinerary_id i \<in> set day_ids \<and> \<not> hidden i) (day_items db))"

section \<open>The stop of a date\<close>

text \<open>
  The loop that \<^verbatim>\<open>trip_detail\<close>, \<^verbatim>\<open>export_trip_csv\<close>, \<^verbatim>\<open>trip_summary\<close> and
  \<^verbatim>\<open>suggest_places\<close> all run over the stops of a trip:
  \<^verbatim>\<open>
  location_by_date = {}
  for stop in stops:
      stop_start = parse_date(stop["start_date"])
      stop_end = parse_date(stop["end_date"])
      current = stop_start
      while current <= stop_end:
          location_by_date[current.isoformat()] = stop["name"]
          current += timedelta(days=1)
  \<close>
  The inner loop ends because every step moves the date forward and dates end at
  9999-12-31: \<open>date_fuel\<close> bounds the steps that are left.
\<close>

definition date_fuel :: "date \<Rightarrow> nat" where
  "date_fuel dt = (case dt of (y, m, d) \<Rightarrow>
     nat (9999 - y) * 384 + nat (12 - m) * 32 + nat (31 - d))"

lemma add_day_fuel: "add_day d = Inr d' \<Longrightarrow> date_fuel d' < date_fuel d"
  by (auto simp: add_day_def date_fuel_def days_in_month_def split: prod.splits if_splits)

function fill_dates ::
  "string \<Rightarrow> date \<Rightarrow> date \<Rightarrow> (string \<Rightarrow> string option) \<Rightarrow> py_error + (string \<Rightarrow> string option)" where
  "fill_dates nm current stop_end location_by_date =
     (if current \<le> stop_end then
        (case add_day current of
           Inl e \<Rightarrow> Inl e
         | Inr nxt \<Rightarrow> fill_dates nm nxt stop_end (location_by_date(isoformat current \<mapsto> nm)))
      else Inr location_by_date)"
  by pat_completeness auto
termination
  by (relation "measure (\<lambda>(nm, current, stop_end, m). date_fuel current)")
    (auto simp: add_day_fuel)

declare fill_dates.simps [simp del]

fun location_loop ::
  "trip_stop list \<Rightarrow> (string \<Rightarrow> string option) \<Rightarrow> py_error + (string \<Rightarrow> string option)" where
  "location_loop [] location_by_date = Inr location_by_date"
| "location_loop (stop # stops) location_by_date =
     (case parse_date (stop_start_date stop) of
        Inl e \<Rightarrow> Inl e
      | Inr stop_start \<Rightarrow>
          (case parse_date (stop_end_date stop) of
             Inl e \<Rightarrow> Inl e
           | Inr stop_end \<Rightarrow>
               (case fill_dates (stop_name stop) stop_start stop_end location_by_date of
                  Inl e \<Rightarrow> Inl e
                | Inr m \<Rightarrow> location_loop stops m)))"

definition build_location_by_date :: "trip_stop list \<Rightarrow> py_error + (string \<Rightarrow> string option)" where
  "build_location_by_date stops = location_loop stops Map.empty"

section \<open>The trip page\<close>

subsection \<open>Items of a day, by category\<close>

text \<open>
  \<^verbatim>\<open>items_by_day\<close> maps a day id to the dictionary
  \<^verbatim>\<open>{"place": [], "restaurant": [], "hotel": []}\<close>, here a record of the three lists;
  appending under any other category is the \<^verbatim>\<open>KeyError\<close> of the dictionary.
\<close>

record per_day_items =
  place_items :: "day_item list"
  restaurant_items :: "day_item list"
  hotel_items :: "day_item list"

definition no_items :: per_day_items where
  "no_items = \<lparr>place_items = [], restaurant_items = [], hotel_items = []\<rparr>"

definition append_item :: "day_item \<Rightarrow> per_day_items \<Rightarrow> py_error + per_day_items" where
  "append_item row pd =
     (if category row = ''place'' then Inr (pd\<lparr>place_items := place_items pd @ [row]\<rparr>)
      else if category row = ''restaurant''
        then Inr (pd\<lparr>restaurant_items := restaurant_items pd @ [row]\<rparr>)
      else if category row = ''hotel'' then Inr (pd\<lparr>hotel_items := hotel_items pd @ [row]\<rparr>)
      else Inl KeyError)"

text \<open>\<^verbatim>\<open>items_by_day.get(k, {"place": [], "restaurant": [], "hotel": []})\<close>, which is also
  what \<^verbatim>\<open>items_by_day.setdefault(k, {...})\<close> returns.\<close>

definition items_get :: "(nat \<Rightarrow> per_day_items option) \<Rightarrow> nat \<Rightarrow> per_day_items" where
  "items_get items_by_day k = (case items_by_day k of None \<Rightarrow> no_items | Some pd \<Rightarrow> pd)"

fun group_items ::
  "day_item list \<Rightarrow> (nat \<Rightarrow> per_day_items option) \<Rightarrow> py_error + (nat \<Rightarrow> per_day_items option)" where
  "group_items [] items_by_day = Inr items_by_day"
| "group_items (row # rows) items_by_day =
     (case append_item row (items_get items_by_day (itinerary_id row)) of
        Inl e \<Rightarrow> Inl e
      | Inr pd \<Rightarrow> group_items rows (items_by_day(itinerary_id row \<mapsto> pd)))"

subsection \<open>Floating point\<close>

text \<open>
  The percentage is computed in binary64:
  \<^verbatim>\<open>int(round((slots_filled + meals_picked) / float(denom) * 100))\<close>. Only quotients
  and products of non-negative integers occur, far from overflow and underflow, so a
  float is a pair \<open>(m, e)\<close> of integers that stands for \<open>m * 2 ^ e\<close>, with \<open>m = 0\<close> or
  \<open>2 ^ 52 \<le> m < 2 ^ 53\<close>. An operation returns the float nearest to its exact result,
  a tie going to the even significand; \<open>to_float a b\<close> is that float for the exact
  result \<open>a / b\<close>.
\<close>

type_synonym float = "int \<times> int"

definition round_half_even :: "int \<Rightarrow> int \<Rightarrow> int" where
  "round_half_even a b =
     (let q = a div b; r = a mod b
      in if 2 * r < b then q
         else if b < 2 * r then q + 1
         else if even q then q else q + 1)"

function bit_length :: "int \<Rightarrow> int" where
  "bit_length n = (if n \<le> 0 then 0 else 1 + bit_length (n div 2))"
  by pat_completeness auto
termination
  by (relation "measure nat") auto

declare bit_length.simps [simp del]

text \<open>\<open>scale a b e\<close> is the fraction \<open>a / b * 2 ^ e\<close>, as numerator and denominator.\<close>

definition scale :: "int \<Rightarrow> int \<Rightarrow> int \<Rightarrow> int \<times> int" where
  "scale a b e = (if 0 \<le> e then (a * 2 ^ nat e, b) else (a, b * 2 ^ nat (- e)))"

definition to_float :: "int \<Rightarrow> int \<Rightarrow> float" where
  "to_float a b =
     (if a = 0 then (0, 0)
      else
        let e0 = bit_length a - bit_length b - 53;
            e1 = (case scale a b (- e0) of (n, d) \<Rightarrow> if 2 ^ 53 \<le> n div d then e0 + 1 else e0);
            m = (case scale a b (- e1) of (n, d) \<Rightarrow> round_half_even n d)
        in if m = 2 ^ 53 then (2 ^ 52, e1 + 1) else (m, e1))"

text \<open>\<^verbatim>\<open>float(n)\<close> for an integer, \<^verbatim>\<open>x / y\<close> and \<^verbatim>\<open>x * n\<close> for an integer \<open>n\<close>, and
  \<^verbatim>\<open>round(x)\<close>, which rounds the exact value of the float to the nearest integer, a
  tie going to the even one, and returns an \<^verbatim>\<open>int\<close>.\<close>

definition float_of_nat :: "nat \<Rightarrow> float" where
  "float_of_nat n = to_float (int n) 1"

definition float_div :: "float \<Rightarrow> float \<Rightarrow> float" where
  "float_div x y = (case x of (m, e) \<Rightarrow> case y of (n, f) \<Rightarrow>
     (case scale m n (e - f) of (a, b) \<Rightarrow> to_float a b))"

definition float_mul_nat :: "float \<Rightarrow> nat \<Rightarrow> float" where
  "float_mul_nat x k = (case x of (m, e) \<Rightarrow>
     (case scale (m * int k) 1 e of (a, b) \<Rightarrow> to_float a b))"

definition py_round :: "float \<Rightarrow> int" where
  "py_round x = (case x of (m, e) \<Rightarrow>
     (case scale m 1 e of (a, b) \<Rightarrow> round_half_even a b))"

subsection \<open>Completion of a day\<close>

record completion =
  slots_filled :: nat
  total_slots :: nat
  meals_picked :: nat
  total_meals :: nat
  percent :: int

text \<open>\<^verbatim>\<open>(day["morning_description"] or "").strip()\<close> is true.\<close>

definition description_filled :: "string option \<Rightarrow> bool" where
  "description_filled d = (py_strip (case d of None \<Rightarrow> [] | Some s \<Rightarrow> s) \<noteq> [])"

text \<open>
  \<^verbatim>\<open>
  meal_flags = {"breakfast": False, "lunch": False, "dinner": False}
  for item in restaurants:
      slot = (item["slot"] or "").lower()
      if slot in meal_flags and item["checked"]:
          meal_flags[slot] = True
  meals_picked = sum(1 for v in meal_flags.values() if v)
  \<close>
\<close>

fun meal_flags_loop :: "day_item list \<Rightarrow> (string \<Rightarrow> bool option) \<Rightarrow> (string \<Rightarrow> bool option)" where
  "meal_flags_loop [] meal_flags = meal_flags"
| "meal_flags_loop (item # restaurants) meal_flags =
     (let s = py_lower (case slot item of None \<Rightarrow> [] | Some v \<Rightarrow> v)
      in if meal_flags s \<noteq> None \<and> checked item
         then meal_flags_loop restaurants (meal_flags(s \<mapsto> True))
         else meal_flags_loop restaurants meal_flags)"

definition completion_of :: "itinerary_row \<Rightarrow> per_day_items \<Rightarrow> completion" where
  "completion_of day per_day =
     (let filled = (if description_filled (morning_description day) then 1 else 0)
                 + (if description_filled (afternoon_description day) then 1 else 0)
                 + (if description_filled (evening_description day) then 1 else 0);
          slots = 3;
          meal_flags = meal_flags_loop (restaurant_items per_day)
             [''breakfast'' \<mapsto> False, ''lunch'' \<mapsto> False, ''dinner'' \<mapsto> False];
          picked = length (filter (\<lambda>k. meal_flags k = Some True)
                             [''breakfast'', ''lunch'', ''dinner'']);
          meals = 3;
          denom = slots + meals;
          pct = (if denom \<noteq> 0
                 then py_round (float_mul_nat
                        (float_div (float_of_nat (filled + picked)) (float_of_nat denom)) 100)
                 else 0)
      in \<lparr>slots_filled = filled, total_slots = slots, meals_picked = picked,
          total_meals = meals, percent = pct\<rparr>)"

subsection \<open>Hotels of a day\<close>

text \<open>
  \<^verbatim>\<open>
  location_name = location_by_date.get(day["date"])
  hotels = list(per_day_items.get("hotel", []))
  if location_name:
      loc_lower = location_name.lower()
      hotels = [h for h in hotels if loc_lower in (h["name"] or "").lower()]
  hotels_filtered_by_day[day["id"]] = hotels
  \<close>
\<close>

definition filter_hotels :: "string option \<Rightarrow> per_day_items \<Rightarrow> day_item list" where
  "filter_hotels location_name per_day =
     (let hotels = hotel_items per_day
      in if location_name \<noteq> None \<and> location_name \<noteq> Some []
         then (let loc_lower = py_lower (the location_name)
               in filter (\<lambda>h. str_in loc_lower (py_lower (item_name h))) hotels)
         else hotels)"

subsection \<open>\<^verbatim>\<open>trip_detail\<close>\<close>

text \<open>
  What the handler hands to the template of the trip page, as far as the stops, the
  items, the completion and the hotels of each day go. The weekday names, the
  directions links, the budget totals, the packing list, the weather and the food
  highlights are computed beside these and do not enter them. \<open>None\<close> is the redirect
  for a trip that does not exist.
\<close>

record detail_view =
  dv_location_by_date :: "string \<Rightarrow> string option"
  dv_items_by_day :: "nat \<Rightarrow> per_day_items option"
  dv_completion_by_day :: "nat \<Rightarrow> completion option"
  dv_hotels_filtered_by_day :: "nat \<Rightarrow> day_item list option"

fun day_loop ::
  "(string \<Rightarrow> string option) \<Rightarrow> (nat \<Rightarrow> per_day_items option) \<Rightarrow> itinerary_row list
   \<Rightarrow> (nat \<Rightarrow> completion option) \<times> (nat \<Rightarrow> day_item list option)
   \<Rightarrow> (nat \<Rightarrow> completion option) \<times> (nat \<Rightarrow> day_item list option)" where
  "day_loop location_by_date items_by_day [] acc = acc"
| "day_loop location_by_date items_by_day (day # days) acc =
     (case acc of (completion_by_day, hotels_filtered_by_day) \<Rightarrow>
        let per_day = items_get items_by_day (day_id day)
        in day_loop location_by_date items_by_day days
             (completion_by_day(day_id day \<mapsto> completion_of day per_day),
              hotels_filtered_by_day(day_id day \<mapsto>
                filter_hotels (location_by_date (day_date day)) per_day)))"

definition trip_detail :: "database \<Rightarrow> nat \<Rightarrow> py_error + detail_view option" where
  "trip_detail db tid =
     (case select_trip db tid of
        None \<Rightarrow> Inr None
      | Some trip \<Rightarrow>
          (let days = select_days db tid;
               stops = select_stops db tid
           in case build_location_by_date stops of
                Inl e \<Rightarrow> Inl e
              | Inr location_by_date \<Rightarrow>
                  (let day_ids = map day_id days;
                       rows = (if day_ids \<noteq> [] then select_visible_items db day_ids else [])
                   in case group_items rows Map.empty of
                        Inl e \<Rightarrow> Inl e
                      | Inr items_by_day \<Rightarrow>
                          (case day_loop location_by_date items_by_day days
                                  (Map.empty, Map.empty) of
                             (completion_by_day, hotels_filtered_by_day) \<Rightarrow>
                               Inr (Some \<lparr>dv_location_by_date = location_by_date,
                                          dv_items_by_day = items_by_day,
                                          dv_completion_by_day = completion_by_day,
                                          dv_hotels_filtered_by_day = hotels_filtered_by_day\<rparr>)))))"

section \<open>Handlers that write\<close>

text \<open>
  A handler returns the database it committed, the message it flashed and where it
  sends the browser. A handler that raises commits nothing: its result is \<open>Inl\<close>.
  \<^verbatim>\<open>request.form\<close> is a dictionary from field name to text.
\<close>

datatype response = To_list_trips | To_trip_detail nat | Template string

type_synonym form = "string \<Rightarrow> string option"

subsection \<open>\<^verbatim>\<open>delete_trip\<close>\<close>

definition delete_trip :: "database \<Rightarrow> nat \<Rightarrow> database \<times> string \<times> response" where
  "delete_trip db tid =
     (let itinerary_ids = map day_id (select_itinerary db tid);
          db1 = (if itinerary_ids \<noteq> []
                 then db\<lparr>day_items :=
                        filter (\<lambda>i. itinerary_id i \<notin> set itinerary_ids) (day_items db)\<rparr>
                 else db);
          db2 = db1\<lparr>itinerary := filter (\<lambda>d. day_trip_id d \<noteq> tid) (itinerary db1)\<rparr>;
          db3 = db2\<lparr>budget_items := filter (\<lambda>b. budget_trip_id b \<noteq> tid) (budget_items db2)\<rparr>;
          db4 = db3\<lparr>trip_stops := filter (\<lambda>s. stop_trip_id s \<noteq> tid) (trip_stops db3)\<rparr>;
          db5 = db4\<lparr>trips := filter (\<lambda>t. trip_id t \<noteq> tid) (trips db4)\<rparr>
      in (db5, ''Trip deleted.'', To_list_trips))"

subsection \<open>\<^verbatim>\<open>generate_itinerary\<close>\<close>

record day_content =
  content_morning_title :: string
  content_morning_description :: string
  content_afternoon_title :: string
  content_afternoon_description :: string
  content_evening_title :: string
  content_evening_description :: string

definition style_texts :: "trip \<Rightarrow> string \<times> string \<times> string" where
  "style_texts trip =
     (let dest = destination trip; style = py_lower (travel_style trip)
      in if str_in ''food'' style \<or> str_in ''foodie'' style then
           (''Start your day at a local cafe in '' @ dest @ ''.'',
            ''Take a walking food tour and sample street food in '' @ dest @ ''.'',
            ''Dinner at a neighborhood restaurant known for regional specialties in ''
              @ dest @ ''.'')
         else if str_in ''budget'' style then
           (''Explore a free park, garden, or public space in '' @ dest @ ''.'',
            ''Visit a low-cost museum or market and people-watch in '' @ dest @ ''.'',
            ''Find a casual, affordable spot for dinner and stroll the city center in ''
              @ dest @ ''.'')
         else if str_in ''family'' style then
           (''Family-friendly attraction or playground in '' @ dest @ ''.'',
            ''Interactive museum, zoo, or aquarium suited for kids in '' @ dest @ ''.'',
            ''Relaxed dinner and early evening walk through a safe, lively area in ''
              @ dest @ ''.'')
         else if str_in ''luxury'' style then
           (''Slow breakfast at a high-end cafe or in-hotel dining in '' @ dest @ ''.'',
            ''Spa treatment or private guided tour around '' @ dest @ ''.'',
            ''Tasting-menu dinner or rooftop bar experience in '' @ dest @ ''.'')
         else
           (''Walk through a central neighborhood in '' @ dest @ ''.'',
            ''Visit one landmark or museum that interests you in '' @ dest @ ''.'',
            ''Try a recommended local restaurant and explore nearby streets in ''
              @ dest @ ''.''))"

definition build_ai_style_itinerary :: "trip \<Rightarrow> itinerary_row list \<Rightarrow> (nat \<Rightarrow> day_content option)" where
  "build_ai_style_itinerary trip days =
     (case style_texts trip of (morning, afternoon, evening) \<Rightarrow>
        fold (\<lambda>day it. it(day_number day \<mapsto>
                \<lparr>content_morning_title = ''Morning'', content_morning_description = morning,
                 content_afternoon_title = ''Afternoon'',
                 content_afternoon_description = afternoon,
                 content_evening_title = ''Evening'',
                 content_evening_description = evening\<rparr>))
          days Map.empty)"

text \<open>\<^verbatim>\<open>day["morning_description"] or content["morning_description"]\<close>.\<close>

definition or_content :: "string option \<Rightarrow> string \<Rightarrow> string" where
  "or_content d c = (case d of None \<Rightarrow> c | Some s \<Rightarrow> if s = [] then c else s)"

text \<open>\<^verbatim>\<open>UPDATE itinerary SET morning_description = ?, afternoon_description = ?,
  evening_description = ? WHERE id = ?\<close>.\<close>

definition update_descriptions :: "string \<Rightarrow> string \<Rightarrow> string \<Rightarrow> nat \<Rightarrow> database \<Rightarrow> database" where
  "update_descriptions m a e i db =
     db\<lparr>itinerary :=
          map (\<lambda>r. if day_id r = i
                    then r\<lparr>morning_description := Some m, afternoon_description := Some a,
                           evening_description := Some e\<rparr>
                    else r)
            (itinerary db)\<rparr>"

fun generate_loop ::
  "(nat \<Rightarrow> day_content option) \<Rightarrow> itinerary_row list \<Rightarrow> database \<Rightarrow> py_error + database" where
  "generate_loop suggestions [] db = Inr db"
| "generate_loop suggestions (day # days) db =
     (case suggestions (day_number day) of
        None \<Rightarrow> Inl KeyError
      | Some content \<Rightarrow>
          (let morning_desc =
                 or_content (morning_description day) (content_morning_description content);
               afternoon_desc =
                 or_content (afternoon_description day) (content_afternoon_description content);
               evening_desc =
                 or_content (evening_description day) (content_evening_description content)
           in generate_loop suggestions days
                (update_descriptions morning_desc afternoon_desc evening_desc (day_id day) db)))"

definition generate_itinerary :: "database \<Rightarrow> nat \<Rightarrow> py_error + database \<times> string \<times> response" where
  "generate_itinerary db tid =
     (let days = select_days db tid
      in case select_trip db tid of
           None \<Rightarrow> Inr (db, ''Trip not found.'', To_list_trips)
         | Some trip \<Rightarrow>
             if days = [] then Inr (db, ''Trip not found.'', To_list_trips)
             else
               (case generate_loop (build_ai_style_itinerary trip days) days db of
                  Inl e \<Rightarrow> Inl e
                | Inr db' \<Rightarrow>
                    Inr (db', ''Sample itinerary generated based on your travel style.'',
                         To_trip_detail tid)))"

subsection \<open>\<^verbatim>\<open>edit_trip\<close>\<close>

text \<open>\<^verbatim>\<open>UPDATE itinerary SET day_number = ?, date = ? WHERE id = ?\<close>.\<close>

definition update_day_number :: "nat \<Rightarrow> string \<Rightarrow> nat \<Rightarrow> database \<Rightarrow> database" where
  "update_day_number dn date_str i db =
     db\<lparr>itinerary :=
          map (\<lambda>r. if day_id r = i then r\<lparr>day_number := dn, day_date := date_str\<rparr> else r)
            (itinerary db)\<rparr>"

text \<open>
  The loop of lines 1489 to 1513: it walks the new range, reuses the row that
  \<^verbatim>\<open>by_date\<close> has for a date and inserts a row for a date it has none for.
\<close>

function reconcile_loop ::
  "nat \<Rightarrow> (string \<Rightarrow> itinerary_row option) \<Rightarrow> date \<Rightarrow> date \<Rightarrow> nat \<Rightarrow> nat set \<Rightarrow> database
   \<Rightarrow> py_error + nat set \<times> database" where
  "reconcile_loop tid by_date new_end current dn used_ids db =
     (if current \<le> new_end then
        (let date_str = isoformat current;
             step = (case by_date date_str of
                       Some row \<Rightarrow>
                         (insert (day_id row) used_ids,
                          update_day_number dn date_str (day_id row) db)
                     | None \<Rightarrow> (used_ids, insert_itinerary tid dn date_str db))
         in case add_day current of
              Inl e \<Rightarrow> Inl e
            | Inr nxt \<Rightarrow> reconcile_loop tid by_date new_end nxt (dn + 1) (fst step) (snd step))
      else Inr (used_ids, db))"
  by pat_completeness auto
termination
  by (relation "measure (\<lambda>(tid, by_date, new_end, current, rest). date_fuel current)")
    (auto simp: add_day_fuel)

declare reconcile_loop.simps [simp del]

text \<open>Lines 1475 to 1531: the days of the trip are adjusted when the range changed.\<close>

definition adjust_itinerary ::
  "database \<Rightarrow> nat \<Rightarrow> date \<Rightarrow> date \<Rightarrow> date \<Rightarrow> date \<Rightarrow> py_error + database" where
  "adjust_itinerary db tid old_start old_end new_start new_end =
     (if new_start \<noteq> old_start \<or> new_end \<noteq> old_end then
        (let existing_days = select_days db tid;
             by_date = fold (\<lambda>row m. m(day_date row \<mapsto> row)) existing_days Map.empty
         in case reconcile_loop tid by_date new_end new_start 1 {} db of
              Inl e \<Rightarrow> Inl e
            | Inr (used_ids, db1) \<Rightarrow>
                (let to_remove = map day_id (filter (\<lambda>row. day_id row \<notin> used_ids) existing_days)
                 in if to_remove \<noteq> []
                    then Inr (db1\<lparr>day_items :=
                                 filter (\<lambda>i. itinerary_id i \<notin> set to_remove) (day_items db1),
                               itinerary :=
                                 filter (\<lambda>d. day_id d \<notin> set to_remove) (itinerary db1)\<rparr>)
                    else Inr db1))
      else Inr db)"

text \<open>\<^verbatim>\<open>UPDATE trips SET destination = ?, start_date = ?, end_date = ?, travel_style = ?
  WHERE id = ?\<close>.\<close>

definition update_trip :: "string \<Rightarrow> string \<Rightarrow> string \<Rightarrow> string \<Rightarrow> nat \<Rightarrow> database \<Rightarrow> database" where
  "update_trip dest s e style tid db =
     db\<lparr>trips :=
          map (\<lambda>t. if trip_id t = tid
                    then t\<lparr>destination := dest, start_date := s, end_date := e,
                           travel_style := style\<rparr>
                    else t)
            (trips db)\<rparr>"

text \<open>The \<^verbatim>\<open>POST\<close> branch of \<^verbatim>\<open>edit_trip\<close>.\<close>

definition edit_trip :: "database \<Rightarrow> nat \<Rightarrow> form \<Rightarrow> py_error + database \<times> string \<times> response" where
  "edit_trip db tid frm =
     (case select_trip db tid of
        None \<Rightarrow> Inr (db, ''Trip not found.'', To_list_trips)
      | Some trip \<Rightarrow>
          (let dest = py_strip (row_get frm ''destination'');
               start_str = row_get frm ''start_date'';
               end_str = row_get frm ''end_date'';
               style = (if row_get frm ''travel_style'' = [] then ''Flexible''
                        else row_get frm ''travel_style'')
           in if dest = [] \<or> start_str = [] \<or> end_str = [] then
                Inr (db, ''Please provide destination, start date, and end date.'',
                     Template ''trip_edit.html'')
              else
                (case (parse_date start_str, parse_date end_str) of
                   (Inr new_start, Inr new_end) \<Rightarrow>
                     if new_end < new_start then
                       Inr (db, ''End date cannot be before start date.'',
                            Template ''trip_edit.html'')
                     else
                       (case parse_date (start_date trip) of
                          Inl e \<Rightarrow> Inl e
                        | Inr old_start \<Rightarrow>
                            (case parse_date (end_date trip) of
                               Inl e \<Rightarrow> Inl e
                             | Inr old_end \<Rightarrow>
                                 (case adjust_itinerary
                                         (update_trip dest (isoformat new_start)
                                            (isoformat new_end) style tid db)
                                         tid old_start old_end new_start new_end of
                                    Inl e \<Rightarrow> Inl e
                                  | Inr db' \<Rightarrow>
                                      Inr (db', ''Trip updated.'', To_trip_detail tid))))
                 | _ \<Rightarrow>
                     Inr (db, ''Dates must be in YYYY-MM-DD format.'',
                          Template ''trip_edit.html''))))"

section \<open>CSV import and export\<close>

text \<open>\<^verbatim>\<open>min(xs)\<close> and \<^verbatim>\<open>max(xs)\<close> raise \<^verbatim>\<open>ValueError\<close> on an empty list.\<close>

definition py_min :: "date list \<Rightarrow> py_error + date" where
  "py_min xs = (case xs of [] \<Rightarrow> Inl ValueError | x # rest \<Rightarrow> Inr (fold min rest x))"

definition py_max :: "date list \<Rightarrow> py_error + date" where
  "py_max xs = (case xs of [] \<Rightarrow> Inl ValueError | x # rest \<Rightarrow> Inr (fold max rest x))"

text \<open>
  \<^verbatim>\<open>city_dates.setdefault(row["city"], []).append(row["date"])\<close>: a dictionary keeps
  its keys in the order they were first set, so it is a list of pairs.
\<close>

fun add_city_date :: "string \<Rightarrow> date \<Rightarrow> (string \<times> date list) list \<Rightarrow> (string \<times> date list) list" where
  "add_city_date c d [] = [(c, [d])]"
| "add_city_date c d ((k, ds) # rest) =
     (if k = c then (k, ds @ [d]) # rest else (k, ds) # add_city_date c d rest)"

definition city_dates_of :: "parsed_row list \<Rightarrow> (string \<times> date list) list" where
  "city_dates_of rows =
     fold (\<lambda>row cd. if pr_city row \<noteq> [] then add_city_date (pr_city row) (pr_date row) cd else cd)
       rows []"

fun insert_stops :: "nat \<Rightarrow> (string \<times> date list) list \<Rightarrow> database \<Rightarrow> py_error + database" where
  "insert_stops tid [] db = Inr db"
| "insert_stops tid ((city_name, cds) # rest) db =
     (case py_min cds of
        Inl e \<Rightarrow> Inl e
      | Inr stop_start \<Rightarrow>
          (case py_max cds of
             Inl e \<Rightarrow> Inl e
           | Inr stop_end \<Rightarrow>
               insert_stops tid rest
                 (insert_trip_stop tid city_name (isoformat stop_start) (isoformat stop_end) db)))"

text \<open>\<^verbatim>\<open>day_by_date = {row["date"]: row for row in days}\<close>.\<close>

definition day_by_date_of :: "itinerary_row list \<Rightarrow> (string \<Rightarrow> itinerary_row option)" where
  "day_by_date_of days = fold (\<lambda>row m. m(day_date row \<mapsto> row)) days Map.empty"

fun insert_items :: "(string \<Rightarrow> itinerary_row option) \<Rightarrow> parsed_row list \<Rightarrow> database \<Rightarrow> database" where
  "insert_items day_by_date [] db = db"
| "insert_items day_by_date (row # rows) db =
     (case day_by_date (isoformat (pr_date row)) of
        None \<Rightarrow> insert_items day_by_date rows db
      | Some itinerary_row \<Rightarrow>
          insert_items day_by_date rows
            (insert_day_item (day_id itinerary_row) (pr_category row) (pr_name row)
               (pr_selected row) (row_slot row) db))"

text \<open>The loop that creates the days of a new trip (\<^verbatim>\<open>new_trip\<close>, \<^verbatim>\<open>import_trip_csv\<close>).\<close>

function create_days :: "nat \<Rightarrow> date \<Rightarrow> date \<Rightarrow> nat \<Rightarrow> database \<Rightarrow> py_error + database" where
  "create_days tid last_day current dn db =
     (if current \<le> last_day then
        (case add_day current of
           Inl e \<Rightarrow> Inl e
         | Inr nxt \<Rightarrow>
             create_days tid last_day nxt (dn + 1) (insert_itinerary tid dn (isoformat current) db))
      else Inr db)"
  by pat_completeness auto
termination
  by (relation "measure (\<lambda>(tid, last_day, current, rest). date_fuel current)")
    (auto simp: add_day_fuel)

declare create_days.simps [simp del]

subsection \<open>\<^verbatim>\<open>import_trip_csv\<close>: a new trip from a file\<close>

text \<open>
  The \<^verbatim>\<open>POST\<close> branch. \<open>upload\<close> is \<open>None\<close> when no file was chosen, and otherwise
  the rows \<^verbatim>\<open>csv.DictReader\<close> yields for the file.
\<close>

definition import_trip_csv ::
  "database \<Rightarrow> form \<Rightarrow> csv_row list option \<Rightarrow> py_error + database \<times> string \<times> response" where
  "import_trip_csv db frm upload =
     (let dest = py_strip (row_get frm ''destination'');
          style = (if row_get frm ''travel_style'' = [] then ''Flexible''
                   else row_get frm ''travel_style'')
      in case upload of
           None \<Rightarrow>
             Inr (db, ''Please provide a destination and choose a CSV file.'',
                  Template ''import_trip.html'')
         | Some reader \<Rightarrow>
             if dest = [] then
               Inr (db, ''Please provide a destination and choose a CSV file.'',
                    Template ''import_trip.html'')
             else
               (let parsed_rows = parse_rows reader
                in if parsed_rows = [] then
                     Inr (db, ''No valid rows found in CSV. Expected headers: date,time_of_day,category,name,city,meal.'',
                          Template ''import_trip.html'')
                   else
                     (case (py_min (map pr_date parsed_rows), py_max (map pr_date parsed_rows)) of
                        (Inr first_date, Inr last_date) \<Rightarrow>
                          (case insert_trip dest (isoformat first_date) (isoformat last_date)
                                  style db of
                             (db1, tid) \<Rightarrow>
                               (case create_days tid last_date first_date 1 db1 of
                                  Inl e \<Rightarrow> Inl e
                                | Inr db2 \<Rightarrow>
                                    (let day_by_date = day_by_date_of (select_itinerary db2 tid)
                                     in case insert_stops tid (city_dates_of parsed_rows) db2 of
                                          Inl e \<Rightarrow> Inl e
                                        | Inr db3 \<Rightarrow>
                                            Inr (insert_items day_by_date parsed_rows db3,
                                                 ''Trip imported from CSV.'',
                                                 To_trip_detail tid))))
                      | (Inl e, _) \<Rightarrow> Inl e
                      | (_, Inl e) \<Rightarrow> Inl e)))"

subsection \<open>\<^verbatim>\<open>import_trip_csv_into_trip\<close>: a file merged into a trip\<close>

definition import_trip_csv_into_trip ::
  "database \<Rightarrow> nat \<Rightarrow> csv_row list option \<Rightarrow> py_error + database \<times> string \<times> response" where
  "import_trip_csv_into_trip db tid upload =
     (case select_trip db tid of
        None \<Rightarrow> Inr (db, ''Trip not found.'', To_list_trips)
      | Some trip \<Rightarrow>
          (case upload of
             None \<Rightarrow>
               Inr (db, ''Please choose a CSV file.'', Template ''import_trip_into_existing.html'')
           | Some reader \<Rightarrow>
               (let parsed_rows = parse_rows reader
                in if parsed_rows = [] then
                     Inr (db, ''No valid rows found in CSV. Expected headers: date,time_of_day,category,name,city,meal,selected.'',
                          Template ''import_trip_into_existing.html'')
                   else
                     (case parse_date (start_date trip) of
                        Inl e \<Rightarrow> Inl e
                      | Inr trip_start \<Rightarrow>
                          (case parse_date (end_date trip) of
                             Inl e \<Rightarrow> Inl e
                           | Inr trip_end \<Rightarrow>
                               (let in_range_rows =
                                      filter (\<lambda>r. trip_start \<le> pr_date r \<and> pr_date r \<le> trip_end)
                                        parsed_rows
                                in if in_range_rows = [] then
                                     Inr (db, ''CSV rows are all outside the current trip dates.'',
                                          Template ''import_trip_into_existing.html'')
                                   else
                                     (let day_by_date =
                                            day_by_date_of (select_itinerary db tid)
                                      in case insert_stops tid (city_dates_of in_range_rows) db of
                                           Inl e \<Rightarrow> Inl e
                                         | Inr db1 \<Rightarrow>
                                             Inr (insert_items day_by_date in_range_rows db1,
                                                  ''Trip updated from CSV.'',
                                                  To_trip_detail tid))))))))"

subsection \<open>\<^verbatim>\<open>export_trip_csv\<close>\<close>

text \<open>
  The lines \<^verbatim>\<open>csv.writer\<close> is given, the header first; \<open>None\<close> is the redirect for a
  trip that does not exist. \<^verbatim>\<open>items_by_day\<close> is a dictionary from day id to the list
  of its visible items.
\<close>

definition export_item_row :: "string \<Rightarrow> string \<Rightarrow> day_item \<Rightarrow> string list" where
  "export_item_row date_str city item =
     (let sl = (case slot item of None \<Rightarrow> [] | Some v \<Rightarrow> v);
          tm = (if category item = ''place'' then
                  (if sl \<in> {''morning'', ''afternoon'', ''evening''} then (sl, []) else ([], []))
                else if category item = ''restaurant'' then
                  (if sl \<in> {''breakfast'', ''lunch'', ''dinner'', ''snack''} then ([], sl)
                   else ([], []))
                else ([], []));
          selected = (if checked item then ''1'' else ''0'')
      in [date_str, fst tm, category item, item_name item, city, snd tm, selected])"

definition items_by_day_of :: "day_item list \<Rightarrow> (nat \<Rightarrow> day_item list option)" where
  "items_by_day_of rows =
     fold (\<lambda>row m. m(itinerary_id row \<mapsto>
               (case m (itinerary_id row) of None \<Rightarrow> [] | Some l \<Rightarrow> l) @ [row]))
       rows Map.empty"

definition export_trip_csv :: "database \<Rightarrow> nat \<Rightarrow> py_error + string list list option" where
  "export_trip_csv db tid =
     (case select_trip db tid of
        None \<Rightarrow> Inr None
      | Some trip \<Rightarrow>
          (let days = select_days db tid;
               stops = select_stops db tid
           in case build_location_by_date stops of
                Inl e \<Rightarrow> Inl e
              | Inr location_by_date \<Rightarrow>
                  (let day_ids = map day_id days;
                       items_by_day = (if day_ids \<noteq> []
                                       then items_by_day_of (select_visible_items db day_ids)
                                       else Map.empty)
                   in Inr (Some
                        ([''date'', ''time_of_day'', ''category'', ''name'', ''city'', ''meal'',
                          ''selected'']
                         # concat (map (\<lambda>day.
                               let date_str = day_date day;
                                   city = (case location_by_date date_str of
                                             None \<Rightarrow> destination trip
                                           | Some c \<Rightarrow> if c = [] then destination trip else c);
                                   items = (case items_by_day (day_id day) of
                                              None \<Rightarrow> [] | Some l \<Rightarrow> l)
                               in map (export_item_row date_str city) items) days))))))"

section \<open>A database to run the handlers on\<close>

text \<open>
  One trip of five days with two stops that share 3 January. Day 1 has its three
  descriptions, a breakfast, a lunch and a snack that are checked, a dinner that is
  checked but hidden, and a hotel that is not checked. Day 3 has two checked hotels.
  The trip has a budget item and a packing item the user added.
\<close>

definition blank_day :: "nat \<Rightarrow> nat \<Rightarrow> nat \<Rightarrow> string \<Rightarrow> itinerary_row" where
  "blank_day i t n d =
     \<lparr>day_id = i, day_trip_id = t, day_number = n, day_date = d,
      morning_title = None, morning_description = None, morning_map_link = None,
      afternoon_title = None, afternoon_description = None, afternoon_map_link = None,
      evening_title = None, evening_description = None, evening_map_link = None\<rparr>"

definition japan_day1 :: itinerary_row where
  "japan_day1 =
     (blank_day 1 1 1 ''2024-01-01'')
       \<lparr>morning_title := Some ''Asakusa'', morning_description := Some ''Senso-ji Temple'',
        morning_map_link := Some ''https://maps.example/sensoji'',
        afternoon_description := Some ''Ueno park'',
        evening_description := Some ''Shibuya Crossing''\<rparr>"

definition japan_db :: database where
  "japan_db =
     \<lparr>trips = [\<lparr>trip_id = 1, destination = ''Japan'', start_date = ''2024-01-01'',
                end_date = ''2024-01-05'', travel_style = ''Foodie''\<rparr>],
      itinerary = [japan_day1, blank_day 2 1 2 ''2024-01-02'', blank_day 3 1 3 ''2024-01-03'',
                   blank_day 4 1 4 ''2024-01-04'', blank_day 5 1 5 ''2024-01-05''],
      budget_items = [\<lparr>budget_id = 1, budget_trip_id = 1, budget_label = ''Train'',
                       estimated_cost = 30, actual_cost = 0\<rparr>],
      day_items =
        [\<lparr>item_id = 1, itinerary_id = 1, category = ''restaurant'', item_name = ''Ichiran Ramen'',
          checked = True, slot = Some ''breakfast'', hidden = False\<rparr>,
         \<lparr>item_id = 2, itinerary_id = 1, category = ''restaurant'', item_name = ''Gyukatsu'',
          checked = True, slot = Some ''lunch'', hidden = False\<rparr>,
         \<lparr>item_id = 3, itinerary_id = 1, category = ''restaurant'', item_name = ''Crepes'',
          checked = True, slot = Some ''snack'', hidden = False\<rparr>,
         \<lparr>item_id = 4, itinerary_id = 1, category = ''restaurant'', item_name = ''Izakaya'',
          checked = True, slot = Some ''dinner'', hidden = True\<rparr>,
         \<lparr>item_id = 5, itinerary_id = 1, category = ''hotel'', item_name = ''Hotel Niwa Tokyo'',
          checked = False, slot = None, hidden = False\<rparr>,
         \<lparr>item_id = 6, itinerary_id = 3, category = ''hotel'', item_name = ''Kyoto Inn'',
          checked = True, slot = None, hidden = False\<rparr>,
         \<lparr>item_id = 7, itinerary_id = 3, category = ''hotel'', item_name = ''Hotel Niwa Tokyo'',
          checked = True, slot = None, hidden = False\<rparr>,
         \<lparr>item_id = 8, itinerary_id = 3, category = ''place'', item_name = ''Fushimi Inari'',
          checked = True, slot = Some ''morning'', hidden = False\<rparr>],
      trip_stops =
        [\<lparr>stop_id = 1, stop_trip_id = 1, stop_name = ''Tokyo'',
          stop_start_date = ''2024-01-01'', stop_end_date = ''2024-01-03''\<rparr>,
         \<lparr>stop_id = 2, stop_trip_id = 1, stop_name = ''Kyoto'',
          stop_start_date = ''2024-01-03'', stop_end_date = ''2024-01-05''\<rparr>],
      packing_items = [\<lparr>packing_id = 1, packing_trip_id = 1, packing_category = ''Custom'',
                        packing_label = ''Umbrella'', packing_checked = False\<rparr>],
      sqlite_sequence = (\<lambda>t. 8)\<rparr>"

section \<open>Facts about strings\<close>

lemma dropWhile_all: "list_all P xs \<Longrightarrow> dropWhile P (xs @ ys) = dropWhile P ys"
  by (induction xs) auto

lemma py_strip_sandwich:
  assumes "list_all py_isspace a" and "list_all py_isspace b"
    and "t \<noteq> []" and "\<not> py_isspace (hd t)" and "\<not> py_isspace (last t)"
  shows "py_strip (a @ t @ b) = t"
proof -
  have front: "dropWhile py_isspace (a @ t @ b) = t @ b"
    using assms(1,3,4) by (cases t) (simp_all add: dropWhile_all)
  have "list_all py_isspace (rev b)"
    using assms(2) by (simp add: list_all_iff)
  then have "dropWhile py_isspace (rev b @ rev t) = dropWhile py_isspace (rev t)"
    by (rule dropWhile_all)
  also have "\<dots> = rev t"
    using assms(3,5) by (cases "rev t") (simp_all add: hd_rev [symmetric])
  finally show ?thesis
    by (simp add: py_strip_def front)
qed

lemma py_strip_decomp:
  "\<exists>a b. s = a @ py_strip s @ b \<and> list_all py_isspace a \<and> list_all py_isspace b"
proof -
  define u where "u = dropWhile py_isspace s"
  define a where "a = takeWhile py_isspace s"
  define b where "b = rev (takeWhile py_isspace (rev u))"
  have "py_strip s @ b = rev (takeWhile py_isspace (rev u) @ dropWhile py_isspace (rev u))"
    unfolding py_strip_def b_def u_def by (simp only: rev_append)
  also have "\<dots> = rev (rev u)"
    by (simp only: takeWhile_dropWhile_id)
  finally have u: "u = py_strip s @ b"
    by simp
  have "s = a @ u"
    by (simp add: a_def u_def)
  then have "s = a @ py_strip s @ b"
    using u by simp
  moreover have "list_all py_isspace a"
    by (simp add: a_def list_all_iff) (meson set_takeWhileD)
  moreover have "list_all py_isspace b"
    by (simp add: b_def list_all_iff) (meson set_takeWhileD)
  ultimately show ?thesis by blast
qed

section \<open>Facts about dates\<close>

lemma days_in_month_le: "days_in_month y m \<le> 31"
  by (simp add: days_in_month_def)

lemma valid_le_max: "valid_date d \<Longrightarrow> d \<le> date_max"
  using days_in_month_le
  by (auto simp: valid_date_def date_max_def days_in_month_def split: prod.splits if_splits)

lemma add_day_ok:
  "valid_date d \<Longrightarrow> d \<noteq> date_max \<Longrightarrow> \<exists>d'. add_day d = Inr d'"
  by (auto simp: valid_date_def date_max_def add_day_def days_in_month_def
      split: prod.splits if_splits)

lemma add_day_max: "add_day date_max = Inl OverflowError"
  by (simp add: add_day_def date_max_def days_in_month_def)

lemma add_day_valid:
  "valid_date d \<Longrightarrow> add_day d = Inr d' \<Longrightarrow> valid_date d'"
  by (auto simp: valid_date_def add_day_def days_in_month_def split: prod.splits if_splits)

lemma add_day_greater:
  "add_day d = Inr d' \<Longrightarrow> d < d'"
  by (auto simp: add_day_def split: prod.splits if_splits)

lemma add_day_least:
  "valid_date d \<Longrightarrow> valid_date e \<Longrightarrow> d < e \<Longrightarrow> add_day d = Inr d' \<Longrightarrow> d' \<le> e"
proof -
  assume a: "valid_date d" "valid_date e" "d < e" "add_day d = Inr d'"
  obtain y m dd where d: "d = (y, m, dd)" by (cases d) auto
  obtain y' m' dd' where e: "e = (y', m', dd')" by (cases e) auto
  from a(1) have v: "1 \<le> m" "m \<le> 12" "1 \<le> dd" "dd \<le> days_in_month y m"
    by (simp_all add: d valid_date_def)
  from a(2) have w: "1 \<le> m'" "m' \<le> 12" "1 \<le> dd'" "dd' \<le> days_in_month y' m'"
    by (simp_all add: e valid_date_def)
  from a(3) have lt: "y < y' \<or> (y = y' \<and> (m < m' \<or> (m = m' \<and> dd < dd')))"
    by (auto simp: d e)
  show "d' \<le> e"
  proof (cases "dd < days_in_month y m")
    case True
    with a(4) have "d' = (y, m, dd + 1)"
      by (simp add: d add_day_def)
    with lt show ?thesis
      by (auto simp: e)
  next
    case last: False
    show ?thesis
    proof (cases "m < 12")
      case True
      with last a(4) have "d' = (y, m + 1, 1)"
        by (simp add: d add_day_def)
      with lt last w show ?thesis
        by (auto simp: e)
    next
      case False
      with last a(4) have "d' = (y + 1, 1, 1)"
        by (auto simp: d add_day_def split: if_splits)
      with lt last False v w show ?thesis
        by (auto simp: e)
    qed
  qed
qed

lemma add_day_error: "add_day d = Inl e \<Longrightarrow> e = OverflowError"
  by (auto simp: add_day_def split: prod.splits if_splits)

lemma days_before_month_step:
  assumes "1 \<le> m" and "m < 12"
  shows "days_before_month y (m + 1) = days_before_month y m + days_in_month y m"
proof -
  from assms have "m = 1 \<or> m = 2 \<or> m = 3 \<or> m = 4 \<or> m = 5 \<or> m = 6 \<or> m = 7 \<or> m = 8
      \<or> m = 9 \<or> m = 10 \<or> m = 11" by arith
  then show ?thesis
    by (elim disjE) (simp_all add: days_before_month_def days_in_month_def)
qed

lemma div_step:
  fixes Y k :: int
  assumes "1 < k"
  shows "Y div k = (Y - 1) div k + (if Y mod k = 0 then 1 else 0)"
proof -
  define q where "q = (Y - 1) div k"
  define r where "r = (Y - 1) mod k"
  have r: "0 \<le> r" "r < k"
    using assms by (simp_all add: r_def)
  have "Y - 1 = q * k + r"
    by (simp add: q_def r_def)
  then have Y: "Y = q * k + (r + 1)"
    by simp
  show ?thesis
  proof (cases "r + 1 < k")
    case True
    with r have "Y div k = q" "Y mod k = r + 1"
      using assms by (simp_all add: Y)
    with r show ?thesis
      by (simp add: q_def)
  next
    case False
    with r have "r + 1 = k" by simp
    then have "Y = (q + 1) * k"
      by (simp add: Y algebra_simps)
    then have "Y div k = q + 1" "Y mod k = 0"
      using assms by simp_all
    then show ?thesis
      by (simp add: q_def)
  qed
qed

lemma mod_chain:
  fixes Y :: int
  shows "Y mod 100 = 0 \<Longrightarrow> Y mod 4 = 0" and "Y mod 400 = 0 \<Longrightarrow> Y mod 100 = 0"
  by auto

lemma days_before_year_step:
  "days_before_year (y + 1) = days_before_year y + (if is_leap y then 366 else 365)"
proof -
  define A where "A = (y - 1) div 4"
  define B where "B = (y - 1) div 100"
  define C where "C = (y - 1) div 400"
  have n: "days_before_year (y + 1) = y * 365 + y div 4 - y div 100 + y div 400"
    by (simp add: days_before_year_def Let_def)
  have o: "days_before_year y = (y - 1) * 365 + A - B + C"
    by (simp add: days_before_year_def Let_def A_def B_def C_def)
  have e4: "y div 4 = A + (if y mod 4 = 0 then 1 else 0)"
    unfolding A_def by (rule div_step) simp
  have e100: "y div 100 = B + (if y mod 100 = 0 then 1 else 0)"
    unfolding B_def by (rule div_step) simp
  have e400: "y div 400 = C + (if y mod 400 = 0 then 1 else 0)"
    unfolding C_def by (rule div_step) simp
  show ?thesis
  proof (cases "y mod 4 = 0")
    case False
    then have "y mod 100 \<noteq> 0" and "y mod 400 \<noteq> 0"
      using mod_chain [of y] by auto
    with False show ?thesis
      unfolding n o is_leap_def e4 e100 e400 by (simp add: algebra_simps)
  next
    case four: True
    show ?thesis
    proof (cases "y mod 100 = 0")
      case False
      then have "y mod 400 \<noteq> 0"
        using mod_chain [of y] by auto
      with four False show ?thesis
        unfolding n o is_leap_def e4 e100 e400 by (simp add: algebra_simps)
    next
      case True
      with four show ?thesis
        unfolding n o is_leap_def e4 e100 e400 by (simp add: algebra_simps)
    qed
  qed
qed

lemma add_day_ordinal:
  assumes "valid_date d" and "add_day d = Inr d'"
  shows "toordinal d' = toordinal d + 1"
proof -
  obtain y m dd where d: "d = (y, m, dd)" by (cases d) auto
  from assms(1) have v: "1 \<le> y" "1 \<le> m" "m \<le> 12" "1 \<le> dd" "dd \<le> days_in_month y m"
    by (simp_all add: d valid_date_def)
  show ?thesis
  proof (cases "dd < days_in_month y m")
    case True
    with assms(2) show ?thesis
      by (auto simp: d add_day_def toordinal_def)
  next
    case last: False
    with v have dd: "dd = days_in_month y m" by simp
    show ?thesis
    proof (cases "m < 12")
      case True
      with last assms(2) have "d' = (y, m + 1, 1)"
        by (auto simp: d add_day_def)
      then show ?thesis
        using days_before_month_step [OF v(2) True, of y]
        by (simp add: d toordinal_def dd)
    next
      case False
      with v have m: "m = 12" by simp
      with last assms(2) have "d' = (y + 1, 1, 1)"
        by (auto simp: d add_day_def split: if_splits)
      then show ?thesis
        using days_before_year_step [of y]
        by (simp add: d toordinal_def dd m days_before_month_def days_in_month_def)
    qed
  qed
qed

section \<open>Facts about the trip page\<close>

lemma str_in_iff: "str_in x s = (\<exists>p q. s = p @ x @ q)"
proof (induction s)
  case Nil
  then show ?case by simp
next
  case (Cons c cs)
  show ?case
  proof
    assume "str_in x (c # cs)"
    then consider "prefix x (c # cs)" | "str_in x cs" by auto
    then show "\<exists>p q. c # cs = p @ x @ q"
    proof cases
      case 1
      then obtain q where "c # cs = x @ q" by (auto simp: prefix_def)
      then have "c # cs = [] @ x @ q" by simp
      then show ?thesis by blast
    next
      case 2
      with Cons.IH obtain p q where "cs = p @ x @ q" by blast
      then have "c # cs = (c # p) @ x @ q" by simp
      then show ?thesis by blast
    qed
  next
    assume "\<exists>p q. c # cs = p @ x @ q"
    then obtain p q where pq: "c # cs = p @ x @ q" by blast
    show "str_in x (c # cs)"
    proof (cases p)
      case Nil
      with pq have "prefix x (c # cs)" by (simp add: prefix_def)
      then show ?thesis by simp
    next
      case (Cons a p')
      with pq have "cs = p' @ x @ q" by simp
      with Cons.IH have "str_in x cs" by blast
      then show ?thesis by simp
    qed
  qed
qed

lemma items_get_upd:
  "items_get (m(j \<mapsto> pd)) k = (if k = j then pd else items_get m k)"
  "items_get (\<lambda>a. if a = j then Some pd else m a) k = (if k = j then pd else items_get m k)"
  by (simp_all add: items_get_def)

lemma append_item_cases:
  "append_item row pd = Inr pd' \<Longrightarrow>
     place_items pd' = place_items pd @ (if category row = ''place'' then [row] else [])
   \<and> restaurant_items pd'
       = restaurant_items pd @ (if category row = ''restaurant'' then [row] else [])
   \<and> hotel_items pd' = hotel_items pd @ (if category row = ''hotel'' then [row] else [])"
  by (auto simp: append_item_def split: if_splits)

lemma group_items_spec:
  "group_items rows m = Inr m' \<Longrightarrow>
     place_items (items_get m' k) = place_items (items_get m k)
        @ filter (\<lambda>r. itinerary_id r = k \<and> category r = ''place'') rows
   \<and> restaurant_items (items_get m' k) = restaurant_items (items_get m k)
        @ filter (\<lambda>r. itinerary_id r = k \<and> category r = ''restaurant'') rows
   \<and> hotel_items (items_get m' k) = hotel_items (items_get m k)
        @ filter (\<lambda>r. itinerary_id r = k \<and> category r = ''hotel'') rows"
proof (induction rows arbitrary: m)
  case Nil
  then show ?case by simp
next
  case (Cons row rows)
  from Cons.prems have "\<exists>pd'. append_item row (items_get m (itinerary_id row)) = Inr pd'
      \<and> group_items rows (m(itinerary_id row \<mapsto> pd')) = Inr m'"
    by (simp split: sum.splits)
  then obtain pd' where
    ap: "append_item row (items_get m (itinerary_id row)) = Inr pd'"
    and rest: "group_items rows (m(itinerary_id row \<mapsto> pd')) = Inr m'"
    by blast
  note ih = Cons.IH [OF rest]
  show ?case
    using ih append_item_cases [OF ap]
    by (cases "itinerary_id row = k") (simp_all add: items_get_upd)
qed

lemma group_items_ok:
  "(\<exists>m'. group_items rows m = Inr m')
     = (\<forall>r \<in> set rows. category r \<in> {''place'', ''restaurant'', ''hotel''})"
proof (induction rows arbitrary: m)
  case Nil
  then show ?case by simp
next
  case (Cons row rows)
  show ?case
  proof (cases "category row \<in> {''place'', ''restaurant'', ''hotel''}")
    case True
    then have "\<exists>pd'. append_item row (items_get m (itinerary_id row)) = Inr pd'"
      by (auto simp: append_item_def)
    then obtain pd' where "append_item row (items_get m (itinerary_id row)) = Inr pd'"
      by blast
    then show ?thesis
      using True Cons.IH [of "m(itinerary_id row \<mapsto> pd')"] by (simp del: fun_upd_apply)
  next
    case False
    then have "append_item row (items_get m (itinerary_id row)) = Inl KeyError"
      by (auto simp: append_item_def)
    then show ?thesis
      using False by simp
  qed
qed

lemma day_loop_other:
  "k \<notin> day_id ` set days \<Longrightarrow>
   fst (day_loop L I days acc) k = fst acc k \<and> snd (day_loop L I days acc) k = snd acc k"
  by (induction days arbitrary: acc) (auto simp: Let_def split: prod.splits)

lemma day_loop_spec:
  "distinct (map day_id days) \<Longrightarrow> day \<in> set days \<Longrightarrow>
   fst (day_loop L I days acc) (day_id day)
     = Some (completion_of day (items_get I (day_id day)))
   \<and> snd (day_loop L I days acc) (day_id day)
       = Some (filter_hotels (L (day_date day)) (items_get I (day_id day)))"
proof (induction days arbitrary: acc)
  case Nil
  then show ?case by simp
next
  case (Cons d days)
  show ?case
  proof (cases "day = d")
    case True
    with Cons.prems have "day_id day \<notin> day_id ` set days" by auto
    from day_loop_other [OF this] True show ?thesis
      by (simp add: Let_def split: prod.splits)
  next
    case False
    with Cons.prems have "day \<in> set days" "distinct (map day_id days)" by auto
    from Cons.IH [OF this(2) this(1)] show ?thesis
      by (simp add: Let_def split: prod.splits)
  qed
qed

lemma select_days_distinct:
  "distinct (map day_id (itinerary db)) \<Longrightarrow> distinct (map day_id (select_days db tid))"
proof -
  assume d: "distinct (map day_id (itinerary db))"
  have "distinct (map day_id (select_itinerary db tid))"
    unfolding select_itinerary_def using d by (rule distinct_map_filter)
  then show ?thesis
    by (simp add: select_days_def distinct_map)
qed

text \<open>The page of a trip that exists, taken apart.\<close>

lemma trip_detail_parts:
  assumes "trip_detail db tid = Inr (Some view)"
  obtains L I where "build_location_by_date (select_stops db tid) = Inr L"
    and "group_items (select_visible_items db (map day_id (select_days db tid))) Map.empty = Inr I"
    and "dv_location_by_date view = L"
    and "dv_items_by_day view = I"
    and "dv_completion_by_day view = fst (day_loop L I (select_days db tid) (Map.empty, Map.empty))"
    and "dv_hotels_filtered_by_day view
           = snd (day_loop L I (select_days db tid) (Map.empty, Map.empty))"
proof -
  have rows: "(if map day_id (select_days db tid) \<noteq> []
               then select_visible_items db (map day_id (select_days db tid)) else [])
              = select_visible_items db (map day_id (select_days db tid))"
    by (simp add: select_visible_items_def)
  from assms obtain L where L: "build_location_by_date (select_stops db tid) = Inr L"
    by (auto simp: trip_detail_def Let_def split: option.splits sum.splits)
  from assms L obtain I where
    I: "group_items (select_visible_items db (map day_id (select_days db tid))) Map.empty = Inr I"
    unfolding trip_detail_def Let_def rows
    by (auto split: option.splits sum.splits)
  from assms L I have
    "view = \<lparr>dv_location_by_date = L, dv_items_by_day = I,
             dv_completion_by_day = fst (day_loop L I (select_days db tid) (Map.empty, Map.empty)),
             dv_hotels_filtered_by_day
               = snd (day_loop L I (select_days db tid) (Map.empty, Map.empty))\<rparr>"
    unfolding trip_detail_def Let_def rows
    by (auto split: option.splits sum.splits prod.splits)
  then show thesis
    using that [OF L I] by simp
qed

text \<open>The items of a day on the page are the visible items of the day, by category.\<close>

lemma visible_of_day:
  assumes "k \<in> set day_ids"
  shows "filter (\<lambda>r. itinerary_id r = k \<and> category r = c) (select_visible_items db day_ids)
     = sort_key item_id
         (filter (\<lambda>i. itinerary_id i = k \<and> \<not> hidden i \<and> category i = c) (day_items db))"
proof -
  have "filter (\<lambda>r. itinerary_id r = k \<and> category r = c)
          (filter (\<lambda>i. itinerary_id i \<in> set day_ids \<and> \<not> hidden i) (day_items db))
        = filter (\<lambda>i. itinerary_id i = k \<and> \<not> hidden i \<and> category i = c) (day_items db)"
    using assms by (auto intro: filter_cong)
  then show ?thesis
    by (simp add: select_visible_items_def filter_sort)
qed

lemma page_items_of_day:
  assumes "trip_detail db tid = Inr (Some view)"
    and "day \<in> set (select_days db tid)"
  shows "place_items (items_get (dv_items_by_day view) (day_id day))
           = sort_key item_id (filter (\<lambda>i. itinerary_id i = day_id day \<and> \<not> hidden i
                \<and> category i = ''place'') (day_items db))"
    and "restaurant_items (items_get (dv_items_by_day view) (day_id day))
           = sort_key item_id (filter (\<lambda>i. itinerary_id i = day_id day \<and> \<not> hidden i
                \<and> category i = ''restaurant'') (day_items db))"
    and "hotel_items (items_get (dv_items_by_day view) (day_id day))
           = sort_key item_id (filter (\<lambda>i. itinerary_id i = day_id day \<and> \<not> hidden i
                \<and> category i = ''hotel'') (day_items db))"
proof -
  from assms(1) obtain L :: "string \<Rightarrow> string option" and I where
    I: "group_items (select_visible_items db (map day_id (select_days db tid))) Map.empty = Inr I"
    and v: "dv_items_by_day view = I"
    by (rule trip_detail_parts)
  have k: "day_id day \<in> set (map day_id (select_days db tid))"
    using assms(2) by simp
  have e: "items_get Map.empty (day_id day) = no_items"
    by (simp add: items_get_def)
  note g = group_items_spec [OF I, of "day_id day"]
  show "place_items (items_get (dv_items_by_day view) (day_id day))
           = sort_key item_id (filter (\<lambda>i. itinerary_id i = day_id day \<and> \<not> hidden i
                \<and> category i = ''place'') (day_items db))"
    using g by (simp add: v e no_items_def visible_of_day [OF k])
  show "restaurant_items (items_get (dv_items_by_day view) (day_id day))
           = sort_key item_id (filter (\<lambda>i. itinerary_id i = day_id day \<and> \<not> hidden i
                \<and> category i = ''restaurant'') (day_items db))"
    using g by (simp add: v e no_items_def visible_of_day [OF k])
  show "hotel_items (items_get (dv_items_by_day view) (day_id day))
           = sort_key item_id (filter (\<lambda>i. itinerary_id i = day_id day \<and> \<not> hidden i
                \<and> category i = ''hotel'') (day_items db))"
    using g by (simp add: v e no_items_def visible_of_day [OF k])
qed

lemma page_of_day:
  assumes "trip_detail db tid = Inr (Some view)"
    and "distinct (map day_id (itinerary db))"
    and "day \<in> set (select_days db tid)"
  shows "dv_completion_by_day view (day_id day)
           = Some (completion_of day (items_get (dv_items_by_day view) (day_id day)))"
    and "dv_hotels_filtered_by_day view (day_id day)
           = Some (filter_hotels (dv_location_by_date view (day_date day))
                     (items_get (dv_items_by_day view) (day_id day)))"
proof -
  from assms(1) obtain L I where
    v: "dv_location_by_date view = L" "dv_items_by_day view = I"
      "dv_completion_by_day view = fst (day_loop L I (select_days db tid) (Map.empty, Map.empty))"
      "dv_hotels_filtered_by_day view
         = snd (day_loop L I (select_days db tid) (Map.empty, Map.empty))"
    by (rule trip_detail_parts)
  note s = day_loop_spec [OF select_days_distinct [OF assms(2)] assms(3), of L I "(Map.empty, Map.empty)"]
  show "dv_completion_by_day view (day_id day)
           = Some (completion_of day (items_get (dv_items_by_day view) (day_id day)))"
    using s by (simp add: v)
  show "dv_hotels_filtered_by_day view (day_id day)
           = Some (filter_hotels (dv_location_by_date view (day_date day))
                     (items_get (dv_items_by_day view) (day_id day)))"
    using s by (simp add: v)
qed

text \<open>The page of the trip of \<open>japan_db\<close> is rendered, and its two stops are found.\<close>

lemma japan_page:
  "case trip_detail japan_db 1 of
     Inr (Some view) \<Rightarrow>
       dv_location_by_date view ''2024-01-01'' = Some ''Tokyo''
       \<and> dv_location_by_date view ''2024-01-03'' = Some ''Kyoto''
   | _ \<Rightarrow> False"
  by code_simp

section \<open>The selected column of a CSV row\<close>

lemma py_lower_space: "py_isspace c \<Longrightarrow> py_lower_char c = c"
  by (auto simp: py_isspace_def py_lower_char_def)

lemma token_chars_no_space:
  assumes "py_lower t \<in> {''0'', ''false'', ''no'', ''n''}" and "c \<in> set t"
  shows "\<not> py_isspace c"
proof
  assume sp: "py_isspace c"
  have "py_lower_char c \<in> set (py_lower t)"
    using assms(2) by (simp add: py_lower_def)
  then have "c \<in> set (py_lower t)"
    using sp by (simp add: py_lower_space)
  then have "c \<in> {CHR ''0'', CHR ''f'', CHR ''a'', CHR ''l'', CHR ''s'', CHR ''e'', CHR ''n'', CHR ''o''}"
    using assms(1) by auto
  then show False
    using sp by (auto simp: py_isspace_def)
qed

lemma parse_selected_iff:
  "(\<not> parse_selected row) =
     (\<exists>a t b. row_get row ''selected'' = a @ t @ b \<and> list_all py_isspace a
        \<and> list_all py_isspace b \<and> py_lower t \<in> {''0'', ''false'', ''no'', ''n''})"
  (is "?lhs = ?rhs")
proof
  assume ?lhs
  then have tok: "py_lower (py_strip (row_get row ''selected'')) \<in> {''0'', ''false'', ''no'', ''n''}"
    by (simp add: parse_selected_def Let_def split: if_splits)
  obtain a b where "row_get row ''selected'' = a @ py_strip (row_get row ''selected'') @ b"
    "list_all py_isspace a" "list_all py_isspace b"
    using py_strip_decomp by blast
  with tok show ?rhs by blast
next
  assume ?rhs
  then obtain a t b where raw: "row_get row ''selected'' = a @ t @ b"
    and a: "list_all py_isspace a" and b: "list_all py_isspace b"
    and tok: "py_lower t \<in> {''0'', ''false'', ''no'', ''n''}"
    by blast
  from tok have ne: "t \<noteq> []" by (auto simp: py_lower_def)
  then have "hd t \<in> set t" "last t \<in> set t" by simp_all
  then have "\<not> py_isspace (hd t)" "\<not> py_isspace (last t)"
    using token_chars_no_space [OF tok] by blast+
  then have "py_strip (row_get row ''selected'') = t"
    using raw a b ne by (simp add: py_strip_sandwich)
  then show ?lhs
    using tok by (simp add: parse_selected_def)
qed

lemma parse_csv_row_selected:
  "parse_csv_row row = Some p \<Longrightarrow> pr_selected p = parse_selected row"
  by (auto simp: parse_csv_row_def Let_def split: if_splits sum.splits)

text \<open>
  C5, as the code has it. A row that is kept has its \<^verbatim>\<open>selected\<close> flag unchecked exactly
  when the text of the column, once the white space around it is removed, is one of
  the tokens \<^verbatim>\<open>0\<close>, \<^verbatim>\<open>false\<close>, \<^verbatim>\<open>no\<close>, \<^verbatim>\<open>n\<close> in any mix of capitals and small letters:
  the text is white space, then a spelling of a token, then white space. Every other
  text, the empty one and a missing column included, gives a checked flag.
\<close>

theorem selected_parsing:
  assumes "parse_csv_row row = Some p"
  shows "(\<not> pr_selected p) =
     (\<exists>a t b. row_get row ''selected'' = a @ t @ b \<and> list_all py_isspace a
        \<and> list_all py_isspace b \<and> py_lower t \<in> {''0'', ''false'', ''no'', ''n''})"
  using parse_csv_row_selected [OF assms] parse_selected_iff [of row] by simp

theorem selected_parsing_witness:
  "parse_csv_row (map_of [(''date'', ''2024-01-01''), (''name'', ''Cafe''), (''selected'', ''No '')])
     = Some \<lparr>pr_date = (2024, 1, 1), pr_name = ''Cafe'', pr_time_of_day = '''',
              pr_category = ''place'', pr_city = '''', pr_meal = '''', pr_selected = False\<rparr>
   \<and> (\<exists>a t b. row_get (map_of [(''date'', ''2024-01-01''), (''name'', ''Cafe''), (''selected'', ''No '')])
                   ''selected'' = a @ t @ b
          \<and> list_all py_isspace a \<and> list_all py_isspace b
          \<and> py_lower t \<in> {''0'', ''false'', ''no'', ''n''})"
proof -
  have h: "parse_csv_row (map_of [(''date'', ''2024-01-01''), (''name'', ''Cafe''), (''selected'', ''No '')])
     = Some \<lparr>pr_date = (2024, 1, 1), pr_name = ''Cafe'', pr_time_of_day = '''',
              pr_category = ''place'', pr_city = '''', pr_meal = '''', pr_selected = False\<rparr>"
    by code_simp
  show ?thesis
    using h selected_parsing [OF h] by simp
qed

text \<open>
  The claim as it is written compares the text itself with the tokens, without regard
  to capitals only. The text \<^verbatim>\<open>" no"\<close>, with a space in front, is none of the tokens
  in that sense, and the row is unchecked all the same.
\<close>

theorem selected_untrimmed_counterexample:
  "map_option pr_selected
     (parse_csv_row (map_of [(''date'', ''2024-01-01''), (''name'', ''Cafe''), (''selected'', '' no'')]))
     = Some False
   \<and> py_lower '' no'' \<notin> {''0'', ''false'', ''no'', ''n''}"
  by code_simp

lemma selected_examples:
  "map (\<lambda>v. map_option pr_selected
         (parse_csv_row (map_of [(''date'', ''2024-01-01''), (''name'', ''Cafe''), (''selected'', v)])))
       [''0'', ''false'', ''No'', ''n'', '''', ''1'', ''yes'', ''true'', ''maybe'']
   = [Some False, Some False, Some False, Some False,
      Some True, Some True, Some True, Some True, Some True]"
  by code_simp

section \<open>The hotels shown for a day\<close>

lemma filter_hotels_spec:
  "filter_hotels location_name pd
     = filter (\<lambda>h. \<forall>loc. location_name = Some loc
                  \<longrightarrow> (\<exists>p q. py_lower (item_name h) = p @ py_lower loc @ q))
         (hotel_items pd)"
proof (cases location_name)
  case None
  then show ?thesis by (simp add: filter_hotels_def)
next
  case (Some loc)
  show ?thesis
  proof (cases "loc = []")
    case True
    have "\<And>s :: string. \<exists>p q. s = p @ q" by blast
    with True Some show ?thesis
      by (simp add: filter_hotels_def py_lower_def)
  next
    case False
    with Some show ?thesis
      by (simp add: filter_hotels_def str_in_iff)
  qed
qed

text \<open>
  C2, as the code has it. On the page of a trip, the hotels kept for a day are taken
  from all the visible hotel items of the day, checked or not, in id order: with a
  stop for the date of the day, those whose name contains the name of the stop, both
  in small letters; with no stop for the date, all of them.
\<close>

theorem hotels_for_display:
  assumes "trip_detail db tid = Inr (Some view)"
    and "distinct (map day_id (itinerary db))"
    and "day \<in> set (select_days db tid)"
  shows "dv_hotels_filtered_by_day view (day_id day) =
     Some (filter (\<lambda>h. \<forall>loc. dv_location_by_date view (day_date day) = Some loc
                     \<longrightarrow> (\<exists>p q. py_lower (item_name h) = p @ py_lower loc @ q))
             (sort_key item_id
                (filter (\<lambda>i. itinerary_id i = day_id day \<and> \<not> hidden i \<and> category i = ''hotel'')
                   (day_items db))))"
  using page_of_day(2) [OF assms] page_items_of_day(3) [OF assms(1,3)]
  by (simp add: filter_hotels_spec)

theorem hotels_for_display_witness:
  "\<exists>view. trip_detail japan_db 1 = Inr (Some view)
     \<and> dv_location_by_date view ''2024-01-03'' = Some ''Kyoto''
     \<and> map_option (map item_name) (dv_hotels_filtered_by_day view 3) = Some [''Kyoto Inn'']"
proof -
  from japan_page obtain view where v: "trip_detail japan_db 1 = Inr (Some view)"
    and loc: "dv_location_by_date view ''2024-01-03'' = Some ''Kyoto''"
    by (auto split: sum.splits option.splits)
  have d: "distinct (map day_id (itinerary japan_db))"
    by code_simp
  have m: "blank_day 3 1 3 ''2024-01-03'' \<in> set (select_days japan_db 1)"
    by code_simp
  have items: "sort_key item_id
       (filter (\<lambda>i. itinerary_id i = 3 \<and> \<not> hidden i \<and> category i = ''hotel'')
          (day_items japan_db))
     = [\<lparr>item_id = 6, itinerary_id = 3, category = ''hotel'', item_name = ''Kyoto Inn'',
         checked = True, slot = None, hidden = False\<rparr>,
        \<lparr>item_id = 7, itinerary_id = 3, category = ''hotel'', item_name = ''Hotel Niwa Tokyo'',
         checked = True, slot = None, hidden = False\<rparr>]"
    by code_simp
  have "str_in (py_lower ''Kyoto'') (py_lower ''Kyoto Inn'')"
    by code_simp
  then have yes: "\<exists>p q. py_lower ''Kyoto Inn'' = p @ py_lower ''Kyoto'' @ q"
    unfolding str_in_iff .
  have "\<not> str_in (py_lower ''Kyoto'') (py_lower ''Hotel Niwa Tokyo'')"
    by code_simp
  then have no: "\<not> (\<exists>p q. py_lower ''Hotel Niwa Tokyo'' = p @ py_lower ''Kyoto'' @ q)"
    unfolding str_in_iff .
  have "dv_hotels_filtered_by_day view (day_id (blank_day 3 1 3 ''2024-01-03''))
      = Some (filter (\<lambda>h. \<forall>loc. dv_location_by_date view (day_date (blank_day 3 1 3 ''2024-01-03'')) = Some loc
                     \<longrightarrow> (\<exists>p q. py_lower (item_name h) = p @ py_lower loc @ q))
             (sort_key item_id
                (filter (\<lambda>i. itinerary_id i = day_id (blank_day 3 1 3 ''2024-01-03'') \<and> \<not> hidden i
                     \<and> category i = ''hotel'')
                   (day_items japan_db))))"
    by (rule hotels_for_display [OF v d m])
  also have "day_id (blank_day 3 1 3 ''2024-01-03'') = 3"
    by (simp add: blank_day_def)
  also have "day_date (blank_day 3 1 3 ''2024-01-03'') = ''2024-01-03''"
    by (simp add: blank_day_def)
  finally have "map_option (map item_name) (dv_hotels_filtered_by_day view 3) = Some [''Kyoto Inn'']"
    unfolding items loc using yes no by simp
  with v loc show ?thesis
    by (intro exI [of _ view] conjI)
qed

text \<open>
  The claim as it is written starts from the checked hotel items. On day 1 of
  \<open>japan_db\<close> the only hotel item is not checked, and the page keeps it.
\<close>

theorem hotels_unchecked_counterexample:
  "(case trip_detail japan_db 1 of
      Inr (Some view) \<Rightarrow>
        map_option (map (\<lambda>h. (item_name h, checked h))) (dv_hotels_filtered_by_day view 1)
    | _ \<Rightarrow> None)
   = Some [(''Hotel Niwa Tokyo'', False)]"
  by code_simp

section \<open>Deleting a trip\<close>

text \<open>
  What \<^verbatim>\<open>delete_trip\<close> removes: the trip, its days, the items of those days, its
  budget items and its stops. The packing items are a table the handler has no
  statement for.
\<close>

lemma delete_trip_removes:
  assumes "delete_trip db tid = (db', msg, resp)"
  shows "select_trip db' tid = None"
    and "select_itinerary db' tid = []"
    and "\<forall>i \<in> set (day_items db'). itinerary_id i \<notin> day_id ` set (select_itinerary db tid)"
    and "\<forall>b \<in> set (budget_items db'). budget_trip_id b \<noteq> tid"
    and "\<forall>s \<in> set (trip_stops db'). stop_trip_id s \<noteq> tid"
proof -
  have db': "db' = fst (delete_trip db tid)"
    using assms by simp
  show "select_trip db' tid = None"
    by (simp add: db' delete_trip_def Let_def select_trip_def find_None_iff)
  show "select_itinerary db' tid = []"
    by (simp add: db' delete_trip_def Let_def select_itinerary_def filter_empty_conv)
  show "\<forall>i \<in> set (day_items db'). itinerary_id i \<notin> day_id ` set (select_itinerary db tid)"
    by (auto simp: db' delete_trip_def Let_def)
  show "\<forall>b \<in> set (budget_items db'). budget_trip_id b \<noteq> tid"
    by (simp add: db' delete_trip_def Let_def)
  show "\<forall>s \<in> set (trip_stops db'). stop_trip_id s \<noteq> tid"
    by (simp add: db' delete_trip_def Let_def)
qed

lemma delete_trip_keeps_packing_items:
  "packing_items (fst (delete_trip db tid)) = packing_items db"
  by (simp add: delete_trip_def Let_def)

text \<open>
  C3 at \<open>japan_db\<close>: after \<^verbatim>\<open>delete_trip\<close> the trip, its days, their items, the
  stops and the budget item are gone, and the packing item of the deleted trip is
  still in its table.
\<close>

theorem delete_trip_leaves_packing_item:
  "(case delete_trip japan_db 1 of (db', msg, resp) \<Rightarrow>
      (trips db', itinerary db', day_items db', trip_stops db', budget_items db',
       map packing_trip_id (packing_items db')))
   = ([], [], [], [], [], [1])"
  by code_simp

section \<open>The completion of a day\<close>

lemma py_strip_empty_iff: "(py_strip s = []) = (\<forall>c \<in> set s. py_isspace c)"
proof -
  have "(dropWhile py_isspace (rev (dropWhile py_isspace s)) = [])
          = (dropWhile py_isspace s = [])"
  proof (cases "dropWhile py_isspace s")
    case Nil
    show ?thesis unfolding Nil by simp
  next
    case (Cons a u)
    then have "\<not> py_isspace a"
      by (metis hd_dropWhile list.distinct(1) list.sel(1))
    with Cons show ?thesis
      by auto
  qed
  then show ?thesis
    by (simp add: py_strip_def)
qed

lemma description_filled_iff:
  "description_filled d = (\<exists>c \<in> set (case d of None \<Rightarrow> [] | Some s \<Rightarrow> s). \<not> py_isspace c)"
  by (simp add: description_filled_def py_strip_empty_iff)

lemma meal_flags_loop_spec:
  "meal_flags_loop rs f k =
     (if f k \<noteq> None
         \<and> (\<exists>i \<in> set rs. checked i \<and> py_lower (case slot i of None \<Rightarrow> [] | Some v \<Rightarrow> v) = k)
      then Some True else f k)"
proof (induction rs arbitrary: f)
  case Nil
  then show ?case by simp
next
  case (Cons item rs)
  show ?case
    by (simp add: Let_def Cons.IH) auto
qed

text \<open>
  The percentage in binary64 is the percentage in exact arithmetic, for each of the
  seven sums that can occur.
\<close>

lemma percent_table:
  "list_all (\<lambda>k. py_round (float_mul_nat (float_div (float_of_nat k) (float_of_nat 6)) 100)
                  = round (100 * of_nat k / 6 :: rat))
     [0, 1, 2, 3, 4, 5, 6]"
  by code_simp

lemma percent_exact:
  assumes "k \<le> 6"
  shows "py_round (float_mul_nat (float_div (float_of_nat k) (float_of_nat 6)) 100)
           = round (100 * of_nat k / 6 :: rat)"
proof -
  from assms have "k \<in> set [0, 1, 2, 3, 4, 5, 6]"
    by (simp add: numeral_eq_Suc le_Suc_eq)
  with percent_table show ?thesis
    unfolding list_all_iff by blast
qed

lemma completion_of_spec:
  "slots_filled (completion_of day pd)
     = length (filter (\<lambda>d. \<exists>c \<in> set (case d of None \<Rightarrow> [] | Some s \<Rightarrow> s). \<not> py_isspace c)
         [morning_description day, afternoon_description day, evening_description day])"
  "meals_picked (completion_of day pd)
     = card {m \<in> {''breakfast'', ''lunch'', ''dinner''}.
               \<exists>i \<in> set (restaurant_items pd). checked i
                 \<and> py_lower (case slot i of None \<Rightarrow> [] | Some v \<Rightarrow> v) = m}"
  "percent (completion_of day pd)
     = round (100 * of_nat (slots_filled (completion_of day pd)
                             + meals_picked (completion_of day pd)) / 6 :: rat)"
proof -
  let ?P = "\<lambda>m. \<exists>i \<in> set (restaurant_items pd). checked i
              \<and> py_lower (case slot i of None \<Rightarrow> [] | Some v \<Rightarrow> v) = m"
  let ?flags = "meal_flags_loop (restaurant_items pd)
                  [''breakfast'' \<mapsto> False, ''lunch'' \<mapsto> False, ''dinner'' \<mapsto> False]"
  have fl: "\<And>k. k \<in> set [''breakfast'', ''lunch'', ''dinner''] \<Longrightarrow> (?flags k = Some True) = ?P k"
    by (auto simp: meal_flags_loop_spec)
  have picked: "meals_picked (completion_of day pd)
                  = length (filter ?P [''breakfast'', ''lunch'', ''dinner''])"
    unfolding completion_of_def Let_def
    by (simp cong: filter_cong add: fl del: meal_flags_loop.simps fun_upd_apply)
  have "distinct (filter ?P [''breakfast'', ''lunch'', ''dinner''])"
    by (rule distinct_filter) simp
  then have "length (filter ?P [''breakfast'', ''lunch'', ''dinner''])
               = card (set (filter ?P [''breakfast'', ''lunch'', ''dinner'']))"
    by (simp only: distinct_card)
  also have "set (filter ?P [''breakfast'', ''lunch'', ''dinner''])
               = {m \<in> {''breakfast'', ''lunch'', ''dinner''}. ?P m}"
    by auto
  finally show "meals_picked (completion_of day pd)
     = card {m \<in> {''breakfast'', ''lunch'', ''dinner''}. ?P m}"
    using picked by simp
  show f: "slots_filled (completion_of day pd)
     = length (filter (\<lambda>d. \<exists>c \<in> set (case d of None \<Rightarrow> [] | Some s \<Rightarrow> s). \<not> py_isspace c)
         [morning_description day, afternoon_description day, evening_description day])"
    by (simp add: completion_of_def Let_def description_filled_iff)
  have "slots_filled (completion_of day pd) \<le> 3"
    unfolding f by (rule order_trans [OF length_filter_le]) simp
  moreover have "meals_picked (completion_of day pd) \<le> 3"
    unfolding picked by (rule order_trans [OF length_filter_le]) simp
  ultimately have le: "slots_filled (completion_of day pd) + meals_picked (completion_of day pd) \<le> 6"
    by simp
  have "percent (completion_of day pd)
          = py_round (float_mul_nat
              (float_div (float_of_nat (slots_filled (completion_of day pd)
                                          + meals_picked (completion_of day pd)))
                 (float_of_nat 6)) 100)"
    by (simp add: completion_of_def Let_def)
  then show "percent (completion_of day pd)
     = round (100 * of_nat (slots_filled (completion_of day pd)
                             + meals_picked (completion_of day pd)) / 6 :: rat)"
    using percent_exact [OF le] by simp
qed

text \<open>
  C6. On the page of a trip, the completion of a day counts the descriptions of the
  day that hold a character other than white space, counts the meals among
  breakfast, lunch and dinner for which the day has a visible, checked restaurant
  item with that slot (the slot is compared in small letters, the way the
  application stores it), and gives the percentage \<open>round (100 * (slots + meals) / 6)\<close>.
  A snack is none of the three meals and adds nothing.
\<close>

theorem completion_percent:
  assumes "trip_detail db tid = Inr (Some view)"
    and "distinct (map day_id (itinerary db))"
    and "day \<in> set (select_days db tid)"
  shows "\<exists>c. dv_completion_by_day view (day_id day) = Some c
     \<and> slots_filled c
         = length (filter (\<lambda>d. \<exists>ch \<in> set (case d of None \<Rightarrow> [] | Some s \<Rightarrow> s). \<not> py_isspace ch)
             [morning_description day, afternoon_description day, evening_description day])
     \<and> meals_picked c
         = card {m \<in> {''breakfast'', ''lunch'', ''dinner''}.
                   \<exists>i \<in> set (day_items db). itinerary_id i = day_id day \<and> \<not> hidden i
                     \<and> category i = ''restaurant'' \<and> checked i
                     \<and> py_lower (case slot i of None \<Rightarrow> [] | Some v \<Rightarrow> v) = m}
     \<and> percent c = round (100 * of_nat (slots_filled c + meals_picked c) / 6 :: rat)"
proof -
  let ?pd = "items_get (dv_items_by_day view) (day_id day)"
  have c: "dv_completion_by_day view (day_id day) = Some (completion_of day ?pd)"
    by (rule page_of_day(1) [OF assms])
  have r: "set (restaurant_items ?pd)
             = {i \<in> set (day_items db). itinerary_id i = day_id day \<and> \<not> hidden i
                  \<and> category i = ''restaurant''}"
    by (simp add: page_items_of_day(2) [OF assms(1,3)])
  have "meals_picked (completion_of day ?pd)
         = card {m \<in> {''breakfast'', ''lunch'', ''dinner''}.
                   \<exists>i \<in> set (day_items db). itinerary_id i = day_id day \<and> \<not> hidden i
                     \<and> category i = ''restaurant'' \<and> checked i
                     \<and> py_lower (case slot i of None \<Rightarrow> [] | Some v \<Rightarrow> v) = m}"
    unfolding completion_of_spec(2) r
    by (rule arg_cong [where f = card]) auto
  with c completion_of_spec(1) [of day ?pd] completion_of_spec(3) [of day ?pd]
  show ?thesis by simp
qed

theorem completion_percent_witness:
  "\<exists>view c. trip_detail japan_db 1 = Inr (Some view)
     \<and> dv_completion_by_day view 1 = Some c
     \<and> slots_filled c = 3 \<and> meals_picked c = 2 \<and> percent c = 83"
proof -
  from japan_page obtain view where v: "trip_detail japan_db 1 = Inr (Some view)"
    by (auto split: sum.splits option.splits)
  have d: "distinct (map day_id (itinerary japan_db))"
    by code_simp
  have m: "japan_day1 \<in> set (select_days japan_db 1)"
    by code_simp
  have i: "day_id japan_day1 = 1"
    by (simp add: japan_day1_def blank_day_def)
  have s: "length (filter (\<lambda>d. \<exists>ch \<in> set (case d of None \<Rightarrow> [] | Some s \<Rightarrow> s). \<not> py_isspace ch)
             [morning_description japan_day1, afternoon_description japan_day1,
              evening_description japan_day1]) = 3"
    by code_simp
  have p: "card {m \<in> {''breakfast'', ''lunch'', ''dinner''}.
                   \<exists>i \<in> set (day_items japan_db). itinerary_id i = 1 \<and> \<not> hidden i
                     \<and> category i = ''restaurant'' \<and> checked i
                     \<and> py_lower (case slot i of None \<Rightarrow> [] | Some v \<Rightarrow> v) = m} = 2"
    by code_simp
  have r: "round (100 * of_nat (3 + 2) / 6 :: rat) = 83"
    by code_simp
  from completion_percent [OF v d m] obtain c where
    "dv_completion_by_day view 1 = Some c" "slots_filled c = 3" "meals_picked c = 2"
    "percent c = round (100 * of_nat (slots_filled c + meals_picked c) / 6 :: rat)"
    unfolding i s p by blast
  with v r show ?thesis
    by (intro exI [of _ view] exI [of _ c]) simp
qed

end
